theory Spec2Isabelle
  imports Main "HOL-Library.Word"
begin

unbundle bit_operations_syntax

section \<open>Bytes, byte order and Python's struct module\<close>

text \<open>
  A Python \<open>bytes\<close> object is a list of 8-bit words. Python integers are unbounded;
  every integer the two programs handle that matters here is non-negative, so they are
  \<open>nat\<close>. A \<open>str\<close> is a \<open>string\<close>; a path is the string that names it.
\<close>

type_synonym byte = "8 word"
type_synonym bytes = "byte list"
type_synonym path = string

text \<open>The \<open>endian\<close> argument of \<open>WwiseSoundbank\<close>: \<open>'<'\<close> or \<open>'>'\<close>.\<close>

datatype endian = Little | Big

text \<open>The exceptions the modelled code can raise.\<close>

datatype error =
    StructError
  | ValueError
  | KeyError
  | AttributeError
  | TypeError
  | IndexError
  | FileNotFoundError
  | PermissionError
  | UnicodeEncodeError

text \<open>Little-endian value of a byte string, and the \<open>k\<close> low bytes of a number.\<close>

fun le_nat :: "bytes \<Rightarrow> nat" where
  "le_nat [] = 0"
| "le_nat (b # bs) = unat b + 256 * le_nat bs"

fun le_bytes :: "nat \<Rightarrow> nat \<Rightarrow> bytes" where
  "le_bytes 0 n = []"
| "le_bytes (Suc k) n = of_nat n # le_bytes k (n div 256)"

definition order_bytes :: "endian \<Rightarrow> bytes \<Rightarrow> bytes" where
  "order_bytes e bs = (case e of Little \<Rightarrow> bs | Big \<Rightarrow> rev bs)"

text \<open>
  \<open>struct.unpack(f'{endian}I', b)\<close>: the buffer must hold exactly four bytes, or
  \<open>struct.error\<close> is raised.
\<close>

definition unpack_I :: "endian \<Rightarrow> bytes \<Rightarrow> error + nat" where
  "unpack_I e bs =
     (if length bs \<noteq> 4 then Inl StructError else Inr (le_nat (order_bytes e bs)))"

text \<open>
  \<open>struct.pack(f'{endian}I', n)\<close>: a number outside \<open>0 .. 2^32 - 1\<close> raises
  \<open>struct.error\<close>.
\<close>

definition pack_I :: "endian \<Rightarrow> nat \<Rightarrow> error + bytes" where
  "pack_I e n =
     (if n < 2 ^ 32 then Inr (order_bytes e (le_bytes 4 n)) else Inl StructError)"

text \<open>\<open>struct.unpack(f'{endian}III', b)\<close> on a slice of twelve bytes.\<close>

definition unpack_III :: "endian \<Rightarrow> bytes \<Rightarrow> error + (nat \<times> nat \<times> nat)" where
  "unpack_III e bs =
     (if length bs \<noteq> 12 then Inl StructError
      else Inr (le_nat (order_bytes e (take 4 bs)),
                le_nat (order_bytes e (take 4 (drop 4 bs))),
                le_nat (order_bytes e (take 4 (drop 8 bs)))))"

text \<open>\<open>struct.pack(f'{endian}III', a, b, c)\<close>.\<close>

definition pack_III :: "endian \<Rightarrow> nat \<Rightarrow> nat \<Rightarrow> nat \<Rightarrow> error + bytes" where
  "pack_III e a b c =
     (if a < 2 ^ 32 \<and> b < 2 ^ 32 \<and> c < 2 ^ 32
      then Inr (order_bytes e (le_bytes 4 a) @ order_bytes e (le_bytes 4 b)
                @ order_bytes e (le_bytes 4 c))
      else Inl StructError)"

text \<open>
  \<open>b.decode('ascii', errors='ignore')\<close> drops every byte above 127 and maps the others
  to their characters; \<open>s.encode('ascii')\<close> raises on a character above 127.
\<close>

definition decode_ascii_ignore :: "bytes \<Rightarrow> string" where
  "decode_ascii_ignore bs = map (\<lambda>b. char_of (unat b)) (filter (\<lambda>b. unat b < 128) bs)"

definition encode_ascii :: "string \<Rightarrow> error + bytes" where
  "encode_ascii s =
     (if \<forall>c \<in> set s. (of_char c :: nat) < 128
      then Inr (map (\<lambda>c. of_nat (of_char c)) s) else Inl UnicodeEncodeError)"

text \<open>
  A binary stream is its buffer and a position. \<open>stream.read(n)\<close> at position \<open>pos\<close>
  returns \<open>read buf pos n\<close> (shorter than \<open>n\<close> at the end of the file, never an
  error) and advances by the number of bytes returned; \<open>stream.read()\<close> returns
  \<open>drop pos buf\<close>; a relative \<open>seek\<close> adds to the position and may pass the end.
\<close>

definition read :: "bytes \<Rightarrow> nat \<Rightarrow> nat \<Rightarrow> bytes" where
  "read buf pos n = take n (drop pos buf)"

section \<open>SoundBankPatcher.py: the bank model\<close>

text \<open>
  The files a replacement path can name: a regular file that can be read (its content),
  or one that exists but cannot be opened for reading (only its size is known to
  \<open>stat\<close>). A path with no file is \<open>None\<close>.
\<close>

datatype fs_node = Readable bytes | Unreadable nat

type_synonym filesystem = "path \<Rightarrow> fs_node option"

definition st_size :: "fs_node \<Rightarrow> nat" where
  "st_size f = (case f of Readable c \<Rightarrow> length c | Unreadable n \<Rightarrow> n)"

definition exists_path :: "filesystem \<Rightarrow> path \<Rightarrow> bool" where
  "exists_path fs p = (fs p \<noteq> None)"

text \<open>\<open>open(p, 'rb').read()\<close>\<close>

definition read_file :: "filesystem \<Rightarrow> path \<Rightarrow> error + bytes" where
  "read_file fs p =
     (case fs p of None \<Rightarrow> Inl FileNotFoundError
      | Some (Unreadable n) \<Rightarrow> Inl PermissionError
      | Some (Readable c) \<Rightarrow> Inr c)"

text \<open>The dataclass \<open>AudioEntry\<close> (fields \<open>id\<close> and \<open>size\<close> renamed: both are HOL constants).\<close>

record audio_entry =
  id_entry :: nat
  offset :: nat
  size_entry :: nat
  data :: "bytes option"
  replacement_path :: "path option"

text \<open>
  The property \<open>AudioEntry.final_size\<close>. A \<open>Path\<close> object is always true in a
  condition, so the test \<open>if self.replacement_path\<close> is a test for \<open>None\<close>.
\<close>

definition final_size :: "filesystem \<Rightarrow> audio_entry \<Rightarrow> error + nat" where
  "final_size fs x =
     (case replacement_path x of
        Some p \<Rightarrow> (case fs p of None \<Rightarrow> Inl FileNotFoundError | Some f \<Rightarrow> Inr (st_size f))
      | None \<Rightarrow> Inr (size_entry x))"

text \<open>The class \<open>SoundbankSection\<close> and its \<open>serialize\<close>.\<close>

record soundbank_section =
  magic :: string
  sdata :: bytes

definition serialize :: "endian \<Rightarrow> soundbank_section \<Rightarrow> error + bytes" where
  "serialize e s =
     (case encode_ascii (magic s) of Inl err \<Rightarrow> Inl err
      | Inr header \<Rightarrow>
         (case pack_I e (length (sdata s)) of Inl err \<Rightarrow> Inl err
          | Inr len \<Rightarrow> Inr (header @ len @ sdata s)))"

text \<open>
  The attributes of a \<open>WwiseSoundbank\<close>. \<open>_data_offset\<close> and \<open>_data_size\<close> are set
  together, and only when a DATA chunk is met: until then the attribute does not exist.
\<close>

record soundbank =
  endian_of :: endian
  sections :: "string \<rightharpoonup> soundbank_section"
  audio_entries :: "audio_entry list"
  data_range :: "(nat \<times> nat) option"
  trailing_data :: bytes

section \<open>SoundBankPatcher.py: loading\<close>

text \<open>
  \<open>_parse_sections\<close>, a loop over the stream. One call of the function is one turn of
  the loop, started at stream position \<open>pos\<close> with the sections collected so far. It
  returns the sections, the DATA range when a DATA chunk ended the loop, and the result
  of the final \<open>stream.read()\<close>. The only exception is \<open>struct.error\<close>, when
  fewer than four bytes follow a recognised tag.
\<close>

function parse_sections ::
  "endian \<Rightarrow> bytes \<Rightarrow> nat \<Rightarrow> (string \<rightharpoonup> soundbank_section)
     \<Rightarrow> error + ((string \<rightharpoonup> soundbank_section) \<times> (nat \<times> nat) option \<times> bytes)" where
  "parse_sections e buf pos secs =
     (if length (read buf pos 4) < 4
      then Inr (secs, None, drop (pos + length (read buf pos 4)) buf)
      else if decode_ascii_ignore (read buf pos 4) \<notin> set [''BKHD'', ''DIDX'', ''DATA'']
      then Inr (secs, None, drop pos buf)
      else
        (case unpack_I e (read buf (pos + 4) 4) of
           Inl err \<Rightarrow> Inl err
         | Inr sz \<Rightarrow>
            if decode_ascii_ignore (read buf pos 4) = ''DATA''
            then Inr (secs, Some (pos + 8, sz), drop (pos + 8 + sz) buf)
            else parse_sections e buf (pos + 8 + length (read buf (pos + 8) sz))
                   (secs(decode_ascii_ignore (read buf pos 4) \<mapsto>
                      \<lparr>magic = decode_ascii_ignore (read buf pos 4),
                       sdata = read buf (pos + 8) sz\<rparr>))))"
  by pat_completeness auto
termination
  by (relation "measure (\<lambda>(e, buf, pos, secs). length buf - pos)")
     (auto simp: read_def)

declare parse_sections.simps [simp del]

text \<open>
  \<open>_extract_audio_catalog\<close>: \<open>catalog_entries\<close> is the \<open>for i in range(entry_count)\<close>
  loop, from index \<open>i\<close> with \<open>n\<close> turns left.
\<close>

fun catalog_entries :: "endian \<Rightarrow> bytes \<Rightarrow> nat \<Rightarrow> nat \<Rightarrow> error + audio_entry list" where
  "catalog_entries e didx_data i 0 = Inr []"
| "catalog_entries e didx_data i (Suc n) =
     (case unpack_III e (take 12 (drop (i * 12) didx_data)) of
        Inl err \<Rightarrow> Inl err
      | Inr (audio_id, file_offset, file_size) \<Rightarrow>
         (case catalog_entries e didx_data (Suc i) n of
            Inl err \<Rightarrow> Inl err
          | Inr rest \<Rightarrow>
             Inr (\<lparr>id_entry = audio_id, offset = file_offset, size_entry = file_size,
                   data = None, replacement_path = None\<rparr> # rest)))"

definition extract_audio_catalog ::
  "endian \<Rightarrow> (string \<rightharpoonup> soundbank_section) \<Rightarrow> error + audio_entry list" where
  "extract_audio_catalog e secs =
     (case secs ''DIDX'' of
        None \<Rightarrow> Inl ValueError
      | Some s \<Rightarrow> catalog_entries e (sdata s) 0 (length (sdata s) div 12))"

text \<open>
  \<open>_preload_audio_data\<close>: each entry's payload is what \<open>stream.read(entry.size)\<close>
  returns at \<open>_data_offset + entry.offset\<close>. With no DATA chunk the attribute
  \<open>_data_offset\<close> is missing, which raises as soon as there is an entry.
\<close>

fun preload_audio_data ::
  "bytes \<Rightarrow> (nat \<times> nat) option \<Rightarrow> audio_entry list \<Rightarrow> error + audio_entry list" where
  "preload_audio_data buf dr [] = Inr []"
| "preload_audio_data buf dr (x # xs) =
     (case dr of
        None \<Rightarrow> Inl AttributeError
      | Some (data_offset, data_size) \<Rightarrow>
         (case preload_audio_data buf dr xs of
            Inl err \<Rightarrow> Inl err
          | Inr rest \<Rightarrow>
             Inr (x\<lparr>data := Some (read buf (data_offset + offset x) (size_entry x))\<rparr> # rest)))"

text \<open>\<open>WwiseSoundbank(file_path, endian)\<close>: the constructor runs \<open>_load_soundbank\<close>.\<close>

definition load_soundbank :: "endian \<Rightarrow> bytes \<Rightarrow> error + soundbank" where
  "load_soundbank e buf =
     (case parse_sections e buf 0 Map.empty of
        Inl err \<Rightarrow> Inl err
      | Inr (secs, dr, trailing) \<Rightarrow>
         (case extract_audio_catalog e secs of
            Inl err \<Rightarrow> Inl err
          | Inr entries \<Rightarrow>
             (case preload_audio_data buf dr entries of
                Inl err \<Rightarrow> Inl err
              | Inr loaded \<Rightarrow>
                 Inr \<lparr>endian_of = e, sections = secs, audio_entries = loaded,
                      data_range = dr, trailing_data = trailing\<rparr>)))"

section \<open>SoundBankPatcher.py: queueing replacements and saving\<close>

text \<open>\<open>find_audio_entry\<close>: the first entry with the ID, or \<open>None\<close>.\<close>

definition find_audio_entry :: "audio_entry list \<Rightarrow> nat \<Rightarrow> audio_entry option" where
  "find_audio_entry entries audio_id = find (\<lambda>x. id_entry x = audio_id) entries"

text \<open>
  The assignment \<open>entry.replacement_path = replacement_file\<close> changes the object that
  \<open>find_audio_entry\<close> returned, which is the first entry of the list with that ID.
\<close>

fun set_replacement :: "nat \<Rightarrow> path \<Rightarrow> audio_entry list \<Rightarrow> audio_entry list" where
  "set_replacement audio_id p [] = []"
| "set_replacement audio_id p (x # xs) =
     (if id_entry x = audio_id then x\<lparr>replacement_path := Some p\<rparr> # xs
      else x # set_replacement audio_id p xs)"

text \<open>
  \<open>replace_audio\<close>. An \<open>AudioEntry\<close> is always true in a condition, so
  \<open>if not entry\<close> is a test for \<open>None\<close>.
\<close>

definition replace_audio ::
  "filesystem \<Rightarrow> soundbank \<Rightarrow> nat \<Rightarrow> path \<Rightarrow> error + soundbank" where
  "replace_audio fs bank audio_id replacement_file =
     (case find_audio_entry (audio_entries bank) audio_id of
        None \<Rightarrow> Inl KeyError
      | Some entry \<Rightarrow>
         if \<not> exists_path fs replacement_file then Inl FileNotFoundError
         else Inr (bank\<lparr>audio_entries :=
                     set_replacement audio_id replacement_file (audio_entries bank)\<rparr>))"

text \<open>
  \<open>_rebuild_audio_index\<close>: the loop over the entries, with \<open>current_offset\<close> as the
  accumulator. The arguments of \<open>struct.pack\<close> are evaluated first, so a missing
  replacement file raises before the packing can.
\<close>

fun rebuild_audio_index ::
  "endian \<Rightarrow> filesystem \<Rightarrow> audio_entry list \<Rightarrow> nat \<Rightarrow> error + bytes" where
  "rebuild_audio_index e fs [] current_offset = Inr []"
| "rebuild_audio_index e fs (x # xs) current_offset =
     (case final_size fs x of
        Inl err \<Rightarrow> Inl err
      | Inr fsz \<Rightarrow>
         (case pack_III e (id_entry x) current_offset fsz of
            Inl err \<Rightarrow> Inl err
          | Inr rec \<Rightarrow>
             (case rebuild_audio_index e fs xs (current_offset + fsz) of
                Inl err \<Rightarrow> Inl err
              | Inr rest \<Rightarrow> Inr (rec @ rest))))"

text \<open>
  \<open>_serialize_audio_data\<close>. An entry whose \<open>data\<close> is still \<open>None\<close> would make
  \<open>bytearray.extend\<close> raise \<open>TypeError\<close>.
\<close>

fun serialize_audio_data :: "filesystem \<Rightarrow> audio_entry list \<Rightarrow> error + bytes" where
  "serialize_audio_data fs [] = Inr []"
| "serialize_audio_data fs (x # xs) =
     (case (case replacement_path x of
              Some p \<Rightarrow> read_file fs p
            | None \<Rightarrow> (case data x of None \<Rightarrow> Inl TypeError | Some d \<Rightarrow> Inr d)) of
        Inl err \<Rightarrow> Inl err
      | Inr payload \<Rightarrow>
         (case serialize_audio_data fs xs of
            Inl err \<Rightarrow> Inl err
          | Inr rest \<Rightarrow> Inr (payload @ rest)))"

text \<open>
  \<open>save\<close>. The output file is opened (and so emptied) first, and every \<open>f.write\<close>
  appends to it; when a step raises, the \<open>with\<close> block closes the file with what was
  written so far. The result is the content of the output file and the outcome.
\<close>

definition save :: "filesystem \<Rightarrow> soundbank \<Rightarrow> bytes \<times> (error + unit)" where
  "save fs bank =
     (case (case sections bank ''BKHD'' of
              None \<Rightarrow> Inr []
            | Some s \<Rightarrow> serialize (endian_of bank) s) of
        Inl err \<Rightarrow> ([], Inl err)
      | Inr w1 \<Rightarrow>
         (case rebuild_audio_index (endian_of bank) fs (audio_entries bank) 0 of
            Inl err \<Rightarrow> (w1, Inl err)
          | Inr updated_didx \<Rightarrow>
             (case serialize (endian_of bank) \<lparr>magic = ''DIDX'', sdata = updated_didx\<rparr> of
                Inl err \<Rightarrow> (w1, Inl err)
              | Inr w2 \<Rightarrow>
                 (case serialize_audio_data fs (audio_entries bank) of
                    Inl err \<Rightarrow> (w1 @ w2, Inl err)
                  | Inr audio_data \<Rightarrow>
                     (case serialize (endian_of bank) \<lparr>magic = ''DATA'', sdata = audio_data\<rparr> of
                        Inl err \<Rightarrow> (w1 @ w2, Inl err)
                      | Inr w3 \<Rightarrow> (w1 @ w2 @ w3 @ trailing_data bank, Inr ()))))))"

section \<open>events_parser.py: reading the buffer\<close>

text \<open>
  \<open>struct.unpack_from(fmt, data, pos)[0]\<close> raises \<open>struct.error\<close> unless the buffer
  holds all the bytes of the format from \<open>pos\<close> on; \<open>data[pos]\<close> raises
  \<open>IndexError\<close> outside the buffer. This parser is little-endian throughout.
\<close>

definition unpack_from_I :: "bytes \<Rightarrow> nat \<Rightarrow> error + nat" where
  "unpack_from_I d pos =
     (if pos + 4 \<le> length d then Inr (le_nat (take 4 (drop pos d))) else Inl StructError)"

definition unpack_from_H :: "bytes \<Rightarrow> nat \<Rightarrow> error + nat" where
  "unpack_from_H d pos =
     (if pos + 2 \<le> length d then Inr (le_nat (take 2 (drop pos d))) else Inl StructError)"

definition signed :: "nat \<Rightarrow> nat \<Rightarrow> int" where
  "signed bits n = (if n < 2 ^ (bits - 1) then int n else int n - 2 ^ bits)"

definition unpack_from_h :: "bytes \<Rightarrow> nat \<Rightarrow> error + int" where
  "unpack_from_h d pos =
     (if pos + 2 \<le> length d then Inr (signed 16 (le_nat (take 2 (drop pos d))))
      else Inl StructError)"

definition unpack_from_i :: "bytes \<Rightarrow> nat \<Rightarrow> error + int" where
  "unpack_from_i d pos =
     (if pos + 4 \<le> length d then Inr (signed 32 (le_nat (take 4 (drop pos d))))
      else Inl StructError)"

definition index_byte :: "bytes \<Rightarrow> nat \<Rightarrow> error + nat" where
  "index_byte d pos = (if pos < length d then Inr (unat (d ! pos)) else Inl IndexError)"

text \<open>
  A transition time is a signed integer up to version 38 and a 32-bit float after it.
  The float is kept as the 32 bits it is decoded from.
\<close>

datatype time_value = IntValue int | FloatBits nat

definition unpack_from_f :: "bytes \<Rightarrow> nat \<Rightarrow> error + time_value" where
  "unpack_from_f d pos =
     (if pos + 4 \<le> length d then Inr (FloatBits (le_nat (take 4 (drop pos d))))
      else Inl StructError)"

section \<open>events_parser.py: the hierarchy model\<close>

text \<open>
  The dataclasses. \<open>Event.audio_file_ids\<close> is \<open>list(linked_audio_ids)\<close>, a list in
  the unspecified order of a Python set: it is kept as the set.
\<close>

record event =
  event_id :: nat
  event_actions :: "nat list"
  event_audio_file_ids :: "nat set"

record action =
  action_id :: nat
  target_id :: "nat option"
  action_type :: "nat option"

record sound =
  sound_id :: nat
  source_id :: "nat option"

record container_flags =
  bIsUsingWeight :: nat
  bResetPlayListAtEachPlay :: nat
  bIsRestartBackward :: nat
  bIsContinuous :: nat
  bIsGlobal :: nat

text \<open>A playlist item \<open>{"id": item_id, "weight": weight}\<close> is the pair.\<close>

record container =
  container_id :: nat
  children :: "nat list"
  playlist :: "(nat \<times> int) list"
  loop_count :: "int option"
  transition_time :: "time_value option"
  transition_mods :: "(time_value \<times> time_value) option"
  avoid_repeat_count :: "nat option"
  mode :: "nat option"
  flags :: "container_flags option"

text \<open>
  The attributes of a \<open>BankParser\<close>. The keys of \<open>event_audio_map\<close> are
  \<open>str(event.id)\<close>, kept as the numbers they print.
\<close>

record bank_parser =
  events :: "event list"
  actions :: "nat \<rightharpoonup> action"
  sounds :: "nat \<rightharpoonup> sound"
  containers :: "nat \<rightharpoonup> container"
  audio_files :: "nat set"
  version :: nat
  event_audio_map :: "nat \<rightharpoonup> nat set"

definition new_bank_parser :: bank_parser where
  "new_bank_parser =
     \<lparr>events = [], actions = Map.empty, sounds = Map.empty, containers = Map.empty,
      audio_files = {}, version = 0, event_audio_map = Map.empty\<rparr>"

section \<open>events_parser.py: chunks\<close>

text \<open>\<open>_parse_didx\<close>: the loop, with \<open>n\<close> turns left; the function returns \<open>end_pos\<close>.\<close>

fun didx_files :: "bank_parser \<Rightarrow> bytes \<Rightarrow> nat \<Rightarrow> nat \<Rightarrow> nat \<Rightarrow> error + bank_parser" where
  "didx_files st d end_pos pos 0 = Inr st"
| "didx_files st d end_pos pos (Suc n) =
     (if pos + 12 > end_pos then Inr st
      else
        (case unpack_from_I d pos of
           Inl err \<Rightarrow> Inl err
         | Inr file_id \<Rightarrow>
            didx_files (st\<lparr>audio_files := insert file_id (audio_files st)\<rparr>) d end_pos
              (pos + 12) n))"

definition parse_didx ::
  "bank_parser \<Rightarrow> bytes \<Rightarrow> nat \<Rightarrow> nat \<Rightarrow> error + (bank_parser \<times> nat)" where
  "parse_didx st d pos sz =
     (case didx_files st d (pos + sz) pos (sz div 12) of
        Inl err \<Rightarrow> Inl err
      | Inr st' \<Rightarrow> Inr (st', pos + sz))"

text \<open>\<open>_read_chunk_header\<close>: the chunk ID is \<open>None\<close> when fewer than 8 bytes are left.\<close>

definition read_chunk_header :: "bytes \<Rightarrow> nat \<Rightarrow> error + (bytes option \<times> nat \<times> nat)" where
  "read_chunk_header d pos =
     (if pos + 8 > length d then Inr (None, 0, length d)
      else
        (case unpack_from_I d (pos + 4) of
           Inl err \<Rightarrow> Inl err
         | Inr chunk_size \<Rightarrow> Inr (Some (take 4 (drop pos d)), chunk_size, pos + 8)))"

definition AKBK :: bytes where "AKBK = [0x41, 0x4B, 0x42, 0x4B]"
definition BKHD :: bytes where "BKHD = [0x42, 0x4B, 0x48, 0x44]"
definition DIDX :: bytes where "DIDX = [0x44, 0x49, 0x44, 0x58]"
definition DATA :: bytes where "DATA = [0x44, 0x41, 0x54, 0x41]"
definition HIRC :: bytes where "HIRC = [0x48, 0x49, 0x52, 0x43]"

text \<open>\<open>_parse_bkhd\<close>: sets \<open>version\<close> and returns the position after the header chunk.\<close>

definition parse_bkhd :: "bank_parser \<Rightarrow> bytes \<Rightarrow> nat \<Rightarrow> error + (bank_parser \<times> nat)" where
  "parse_bkhd st d pos0 =
     (let pos = (if take 4 (drop pos0 d) = AKBK then pos0 + 12 else pos0) in
      if take 4 (drop pos d) \<noteq> BKHD then Inl ValueError
      else
        (case unpack_from_I d (pos + 4) of
           Inl err \<Rightarrow> Inl err
         | Inr chunk_size \<Rightarrow>
            (case unpack_from_I d (pos + 8) of
               Inl err \<Rightarrow> Inl err
             | Inr v \<Rightarrow> Inr (st\<lparr>version := v\<rparr>, pos + 8 + chunk_size))))"

text \<open>\<open>_read_object_header\<close>\<close>

definition read_object_header :: "nat \<Rightarrow> bytes \<Rightarrow> nat \<Rightarrow> error + (nat \<times> nat \<times> nat)" where
  "read_object_header ver d pos =
     (if ver \<le> 48 then
        (case unpack_from_I d pos of
           Inl err \<Rightarrow> Inl err
         | Inr obj_type \<Rightarrow>
            (case unpack_from_I d (pos + 4) of
               Inl err \<Rightarrow> Inl err
             | Inr obj_size \<Rightarrow> Inr (obj_type, obj_size, pos + 8)))
      else
        (case index_byte d pos of
           Inl err \<Rightarrow> Inl err
         | Inr obj_type \<Rightarrow>
            (case unpack_from_I d (pos + 1) of
               Inl err \<Rightarrow> Inl err
             | Inr obj_size \<Rightarrow> Inr (obj_type, obj_size, pos + 5))))"

section \<open>events_parser.py: object records\<close>

text \<open>
  \<open>_read_varint\<close>: the \<open>while True\<close> loop, with \<open>value\<close> and \<open>bytes_read\<close> as
  accumulators. It ends at the first byte with the high bit clear, or with
  \<open>IndexError\<close> at the end of the buffer.
\<close>

function read_varint_loop :: "bytes \<Rightarrow> nat \<Rightarrow> nat \<Rightarrow> nat \<Rightarrow> error + (nat \<times> nat)" where
  "read_varint_loop d pos val bytes_read =
     (if pos < length d then
        (if unat (d ! pos) AND 0x80 = 0
         then Inr (push_bit 7 val OR (unat (d ! pos) AND 0x7F), bytes_read + 1)
         else read_varint_loop d (pos + 1) (push_bit 7 val OR (unat (d ! pos) AND 0x7F))
                (bytes_read + 1))
      else Inl IndexError)"
  by pat_completeness auto
termination
  by (relation "measure (\<lambda>(d, pos, val, bytes_read). length d - pos)") auto

declare read_varint_loop.simps [simp del]

definition read_varint :: "bytes \<Rightarrow> nat \<Rightarrow> error + (nat \<times> nat)" where
  "read_varint d pos = read_varint_loop d pos 0 0"

text \<open>
  The list comprehension of \<open>_parse_event\<close>: action \<open>i\<close> is read at
  \<open>current_pos + i * 4\<close>, for \<open>i\<close> in \<open>range(action_count)\<close>.
\<close>

fun event_action_ids :: "bytes \<Rightarrow> nat \<Rightarrow> nat \<Rightarrow> nat \<Rightarrow> error + nat list" where
  "event_action_ids d current_pos i 0 = Inr []"
| "event_action_ids d current_pos i (Suc n) =
     (case unpack_from_I d (current_pos + i * 4) of
        Inl err \<Rightarrow> Inl err
      | Inr a \<Rightarrow>
         (case event_action_ids d current_pos (Suc i) n of
            Inl err \<Rightarrow> Inl err
          | Inr rest \<Rightarrow> Inr (a # rest)))"

text \<open>\<open>_parse_event\<close>. The parameter \<open>size\<close> is not used by the source.\<close>

definition parse_event :: "nat \<Rightarrow> bytes \<Rightarrow> nat \<Rightarrow> nat \<Rightarrow> error + event" where
  "parse_event ver d pos sz =
     (case unpack_from_I d pos of
        Inl err \<Rightarrow> Inl err
      | Inr eid \<Rightarrow>
         (case (if ver \<le> 122 then
                  (case unpack_from_I d (pos + 4) of
                     Inl err \<Rightarrow> Inl err
                   | Inr action_count \<Rightarrow> Inr (action_count, pos + 4 + 4))
                else
                  (case read_varint d (pos + 4) of
                     Inl err \<Rightarrow> Inl err
                   | Inr (action_count, bytes_read) \<Rightarrow>
                      Inr (action_count, pos + 4 + bytes_read))) of
            Inl err \<Rightarrow> Inl err
          | Inr (action_count, current_pos) \<Rightarrow>
             (case event_action_ids d current_pos 0 action_count of
                Inl err \<Rightarrow> Inl err
              | Inr acts \<Rightarrow>
                 Inr \<lparr>event_id = eid, event_actions = acts, event_audio_file_ids = {}\<rparr>)))"

text \<open>\<open>_parse_action\<close>: \<open>None\<close> when the ID itself is past the buffer.\<close>

definition parse_action :: "bytes \<Rightarrow> nat \<Rightarrow> nat \<Rightarrow> error + action option" where
  "parse_action d pos sz =
     (if pos + 4 > length d then Inr None
      else
        (case unpack_from_I d pos of
           Inl err \<Rightarrow> Inl err
         | Inr aid \<Rightarrow>
            (case (if pos + 4 + 2 \<le> pos + sz then
                     (case unpack_from_H d (pos + 4) of
                        Inl err \<Rightarrow> Inl err
                      | Inr t \<Rightarrow> Inr (Some t, pos + 4 + 2))
                   else Inr (None, pos + 4)) of
               Inl err \<Rightarrow> Inl err
             | Inr (atype, current_pos) \<Rightarrow>
                (case (if current_pos + 4 \<le> pos + sz then
                         (case unpack_from_I d current_pos of
                            Inl err \<Rightarrow> Inl err
                          | Inr t \<Rightarrow> Inr (Some t))
                       else Inr None) of
                   Inl err \<Rightarrow> Inl err
                 | Inr target \<Rightarrow>
                    Inr (Some \<lparr>action_id = aid, target_id = target, action_type = atype\<rparr>)))))"

text \<open>\<open>_parse_sound\<close>\<close>

definition parse_sound :: "bytes \<Rightarrow> nat \<Rightarrow> nat \<Rightarrow> error + sound option" where
  "parse_sound d pos sz =
     (if pos + 4 > length d then Inr None
      else
        (case unpack_from_I d pos of
           Inl err \<Rightarrow> Inl err
         | Inr sid \<Rightarrow>
            if pos + 4 + 8 > pos + sz
            then Inr (Some \<lparr>sound_id = sid, source_id = None\<rparr>)
            else if pos + 4 + 4 + 1 + 4 > pos + sz
            then Inr (Some \<lparr>sound_id = sid, source_id = None\<rparr>)
            else
              (case unpack_from_I d (pos + 4 + 4 + 1) of
                 Inl err \<Rightarrow> Inl err
               | Inr src \<Rightarrow> Inr (Some \<lparr>sound_id = sid, source_id = Some src\<rparr>))))"

text \<open>The field groups of a container record; each returns the new position first.\<close>

definition parse_loop_counts ::
  "nat \<Rightarrow> bytes \<Rightarrow> nat \<Rightarrow> nat \<Rightarrow> error + (nat \<times> int option)" where
  "parse_loop_counts ver d pos end_pos =
     (if pos + 2 > end_pos then Inr (pos, None)
      else
        (case unpack_from_h d pos of
           Inl err \<Rightarrow> Inl err
         | Inr lc \<Rightarrow>
            if ver \<le> 72 then Inr (pos + 2, Some lc)
            else if pos + 2 + 4 > end_pos then Inr (pos + 2, Some lc)
            else Inr (pos + 2 + 4, Some lc)))"

definition parse_transition_times ::
  "nat \<Rightarrow> bytes \<Rightarrow> nat \<Rightarrow> nat
     \<Rightarrow> error + (nat \<times> time_value option \<times> (time_value \<times> time_value) option)" where
  "parse_transition_times ver d pos end_pos =
     (if ver \<le> 38 then
        (if pos + 12 > end_pos then Inr (pos, None, None)
         else
           (case unpack_from_i d pos of
              Inl err \<Rightarrow> Inl err
            | Inr t \<Rightarrow>
               (case unpack_from_i d (pos + 4) of
                  Inl err \<Rightarrow> Inl err
                | Inr mn \<Rightarrow>
                   (case unpack_from_i d (pos + 4 + 4) of
                      Inl err \<Rightarrow> Inl err
                    | Inr mx \<Rightarrow>
                       Inr (pos + 4 + 4 + 4, Some (IntValue t),
                            Some (IntValue mn, IntValue mx))))))
      else
        (if pos + 12 > end_pos then Inr (pos, None, None)
         else
           (case unpack_from_f d pos of
              Inl err \<Rightarrow> Inl err
            | Inr t \<Rightarrow>
               (case unpack_from_f d (pos + 4) of
                  Inl err \<Rightarrow> Inl err
                | Inr mn \<Rightarrow>
                   (case unpack_from_f d (pos + 4 + 4) of
                      Inl err \<Rightarrow> Inl err
                    | Inr mx \<Rightarrow> Inr (pos + 4 + 4 + 4, Some t, Some (mn, mx)))))))"

definition parse_avoid_repeat_count ::
  "bytes \<Rightarrow> nat \<Rightarrow> nat \<Rightarrow> error + (nat \<times> nat option)" where
  "parse_avoid_repeat_count d pos end_pos =
     (if pos + 2 > end_pos then Inr (pos, None)
      else
        (case unpack_from_H d pos of
           Inl err \<Rightarrow> Inl err
         | Inr c \<Rightarrow> Inr (pos + 2, Some c)))"

text \<open>The five flags read as five bytes from \<open>pos\<close> (versions up to 89).\<close>

definition flag_bytes :: "bytes \<Rightarrow> nat \<Rightarrow> error + container_flags" where
  "flag_bytes d pos =
     (case index_byte d pos of Inl err \<Rightarrow> Inl err | Inr f0 \<Rightarrow>
      (case index_byte d (pos + 1) of Inl err \<Rightarrow> Inl err | Inr f1 \<Rightarrow>
       (case index_byte d (pos + 2) of Inl err \<Rightarrow> Inl err | Inr f2 \<Rightarrow>
        (case index_byte d (pos + 3) of Inl err \<Rightarrow> Inl err | Inr f3 \<Rightarrow>
         (case index_byte d (pos + 4) of Inl err \<Rightarrow> Inl err | Inr f4 \<Rightarrow>
            Inr \<lparr>bIsUsingWeight = f0, bResetPlayListAtEachPlay = f1,
                 bIsRestartBackward = f2, bIsContinuous = f3, bIsGlobal = f4\<rparr>)))))"

text \<open>The five flags as bits 0 to 4 of one byte (later versions).\<close>

definition flag_bits :: "nat \<Rightarrow> container_flags" where
  "flag_bits bitvector =
     \<lparr>bIsUsingWeight = drop_bit 0 bitvector AND 1,
      bResetPlayListAtEachPlay = drop_bit 1 bitvector AND 1,
      bIsRestartBackward = drop_bit 2 bitvector AND 1,
      bIsContinuous = drop_bit 3 bitvector AND 1,
      bIsGlobal = drop_bit 4 bitvector AND 1\<rparr>"

text \<open>
  \<open>_parse_modes_and_flags\<close>: the dictionary \<open>{"mode": .., "flags": ..}\<close> is the pair.
  The bytes \<open>transition_mode\<close> and \<open>random_mode\<close> are read (and can raise) but not
  kept.
\<close>

definition parse_modes_and_flags ::
  "nat \<Rightarrow> bytes \<Rightarrow> nat \<Rightarrow> nat \<Rightarrow> error + (nat \<times> nat option \<times> container_flags option)" where
  "parse_modes_and_flags ver d pos end_pos =
     (if pos + 3 > end_pos then Inr (pos, None, None)
      else
        (case index_byte d pos of Inl err \<Rightarrow> Inl err | Inr transition_mode \<Rightarrow>
         (case index_byte d (pos + 1) of Inl err \<Rightarrow> Inl err | Inr random_mode \<Rightarrow>
          (case index_byte d (pos + 2) of Inl err \<Rightarrow> Inl err | Inr m \<Rightarrow>
             if ver \<le> 89 then
               (if pos + 3 + 5 \<le> end_pos then
                  (case flag_bytes d (pos + 3) of
                     Inl err \<Rightarrow> Inl err
                   | Inr fl \<Rightarrow> Inr (pos + 3 + 5, Some m, Some fl))
                else Inr (pos + 3, Some m, None))
             else
               (if pos + 3 + 1 > end_pos then Inr (pos + 3, Some m, None)
                else
                  (case index_byte d (pos + 3) of
                     Inl err \<Rightarrow> Inl err
                   | Inr bitvector \<Rightarrow> Inr (pos + 3 + 1, Some m, Some (flag_bits bitvector))))))))"

text \<open>\<open>_parse_node_base_params\<close> returns the position it is given.\<close>

definition parse_node_base_params :: "bytes \<Rightarrow> nat \<Rightarrow> nat \<Rightarrow> nat" where
  "parse_node_base_params d pos end_pos = pos"

text \<open>\<open>_parse_children\<close>: the loop with \<open>n\<close> turns left, then the function.\<close>

fun children_loop :: "bytes \<Rightarrow> nat \<Rightarrow> nat \<Rightarrow> nat \<Rightarrow> error + nat list" where
  "children_loop d pos end_pos 0 = Inr []"
| "children_loop d pos end_pos (Suc n) =
     (if pos + 4 > end_pos then Inr []
      else
        (case unpack_from_I d pos of
           Inl err \<Rightarrow> Inl err
         | Inr child_id \<Rightarrow>
            (case children_loop d (pos + 4) end_pos n of
               Inl err \<Rightarrow> Inl err
             | Inr rest \<Rightarrow> Inr (child_id # rest))))"

definition parse_children :: "bytes \<Rightarrow> nat \<Rightarrow> nat \<Rightarrow> error + nat list" where
  "parse_children d pos end_pos =
     (if pos + 4 > end_pos then Inr []
      else
        (case unpack_from_I d pos of
           Inl err \<Rightarrow> Inl err
         | Inr num_children \<Rightarrow> children_loop d (pos + 4) end_pos num_children))"

text \<open>\<open>_parse_playlist\<close>: the loop with \<open>n\<close> turns left, then the function.\<close>

fun playlist_loop ::
  "nat \<Rightarrow> bytes \<Rightarrow> nat \<Rightarrow> nat \<Rightarrow> nat \<Rightarrow> error + (nat \<times> int) list" where
  "playlist_loop ver d pos end_pos 0 = Inr []"
| "playlist_loop ver d pos end_pos (Suc n) =
     (if pos + 4 > end_pos then Inr []
      else
        (case unpack_from_I d pos of
           Inl err \<Rightarrow> Inl err
         | Inr item_id \<Rightarrow>
            if ver \<le> 56 then
              (if pos + 4 + 1 > end_pos then Inr []
               else
                 (case index_byte d (pos + 4) of
                    Inl err \<Rightarrow> Inl err
                  | Inr w \<Rightarrow>
                     (case playlist_loop ver d (pos + 4 + 1) end_pos n of
                        Inl err \<Rightarrow> Inl err
                      | Inr rest \<Rightarrow> Inr ((item_id, int w) # rest))))
            else
              (if pos + 4 + 4 > end_pos then Inr []
               else
                 (case unpack_from_i d (pos + 4) of
                    Inl err \<Rightarrow> Inl err
                  | Inr w \<Rightarrow>
                     (case playlist_loop ver d (pos + 4 + 4) end_pos n of
                        Inl err \<Rightarrow> Inl err
                      | Inr rest \<Rightarrow> Inr ((item_id, w) # rest))))))"

definition parse_playlist :: "nat \<Rightarrow> bytes \<Rightarrow> nat \<Rightarrow> nat \<Rightarrow> error + (nat \<times> int) list" where
  "parse_playlist ver d pos end_pos =
     (if ver \<le> 38 then
        (if pos + 4 > end_pos then Inr []
         else
           (case unpack_from_I d pos of
              Inl err \<Rightarrow> Inl err
            | Inr playlist_count \<Rightarrow> playlist_loop ver d (pos + 4) end_pos playlist_count))
      else
        (if pos + 2 > end_pos then Inr []
         else
           (case unpack_from_H d pos of
              Inl err \<Rightarrow> Inl err
            | Inr playlist_count \<Rightarrow> playlist_loop ver d (pos + 2) end_pos playlist_count)))"

text \<open>
  \<open>_parse_container\<close>. The \<open>print\<close> of the source writes to standard output and
  changes nothing else.
\<close>

definition parse_container :: "nat \<Rightarrow> bytes \<Rightarrow> nat \<Rightarrow> nat \<Rightarrow> error + container option" where
  "parse_container ver d pos sz =
     (if pos + 4 > length d then Inr None
      else
        (case unpack_from_I d pos of Inl err \<Rightarrow> Inl err | Inr cid \<Rightarrow>
         (case parse_loop_counts ver d (parse_node_base_params d (pos + 4) (pos + sz))
                 (pos + sz) of
            Inl err \<Rightarrow> Inl err
          | Inr (p1, lc) \<Rightarrow>
         (case parse_transition_times ver d p1 (pos + sz) of
            Inl err \<Rightarrow> Inl err
          | Inr (p2, tt, tm) \<Rightarrow>
         (case parse_avoid_repeat_count d p2 (pos + sz) of
            Inl err \<Rightarrow> Inl err
          | Inr (p3, arc) \<Rightarrow>
         (case parse_modes_and_flags ver d p3 (pos + sz) of
            Inl err \<Rightarrow> Inl err
          | Inr (p4, md, fl) \<Rightarrow>
         (let p5 = (if sz > 84 then p4 + (sz - 84) else p4) in
          (case parse_children d p5 (pos + sz) of
             Inl err \<Rightarrow> Inl err
           | Inr chs \<Rightarrow>
          (case parse_playlist ver d (p5 + (8 + 4 * length chs)) (pos + sz) of
             Inl err \<Rightarrow> Inl err
           | Inr pl \<Rightarrow>
              Inr (Some \<lparr>container_id = cid, children = chs, playlist = pl,
                         loop_count = lc, transition_time = tt, transition_mods = tm,
                         avoid_repeat_count = arc, mode = md, flags = fl\<rparr>))))))))))"

section \<open>events_parser.py: the hierarchy chunk and the chunk loop\<close>

text \<open>The dispatch on the object type inside the loop of \<open>_parse_hirc\<close>.\<close>

definition hirc_object ::
  "bank_parser \<Rightarrow> bytes \<Rightarrow> nat \<Rightarrow> nat \<Rightarrow> nat \<Rightarrow> error + bank_parser" where
  "hirc_object st d obj_type current_obj_data_pos obj_data_size =
     (if obj_type = 0x04 then
        (case parse_event (version st) d current_obj_data_pos obj_data_size of
           Inl err \<Rightarrow> Inl err
         | Inr ev \<Rightarrow> Inr (st\<lparr>events := events st @ [ev]\<rparr>))
      else if obj_type = 0x03 then
        (case parse_action d current_obj_data_pos obj_data_size of
           Inl err \<Rightarrow> Inl err
         | Inr None \<Rightarrow> Inr st
         | Inr (Some a) \<Rightarrow> Inr (st\<lparr>actions := (actions st)(action_id a \<mapsto> a)\<rparr>))
      else if obj_type = 0x02 then
        (case parse_sound d current_obj_data_pos obj_data_size of
           Inl err \<Rightarrow> Inl err
         | Inr None \<Rightarrow> Inr st
         | Inr (Some s) \<Rightarrow> Inr (st\<lparr>sounds := (sounds st)(sound_id s \<mapsto> s)\<rparr>))
      else if obj_type = 0x05 then
        (case parse_container (version st) d current_obj_data_pos obj_data_size of
           Inl err \<Rightarrow> Inl err
         | Inr None \<Rightarrow> Inr st
         | Inr (Some c) \<Rightarrow> Inr (st\<lparr>containers := (containers st)(container_id c \<mapsto> c)\<rparr>))
      else Inr st)"

text \<open>
  The \<open>for _ in range(num_objects)\<close> loop of \<open>_parse_hirc\<close>, with \<open>n\<close> turns left:
  after each record the position is the start of its payload plus its declared size,
  and the loop is left when that passes \<open>end_pos\<close>.
\<close>

fun hirc_objects :: "bank_parser \<Rightarrow> bytes \<Rightarrow> nat \<Rightarrow> nat \<Rightarrow> nat \<Rightarrow> error + bank_parser" where
  "hirc_objects st d end_pos pos 0 = Inr st"
| "hirc_objects st d end_pos pos (Suc n) =
     (case read_object_header (version st) d pos of
        Inl err \<Rightarrow> Inl err
      | Inr (obj_type, obj_data_size, current_obj_data_pos) \<Rightarrow>
         (case hirc_object st d obj_type current_obj_data_pos obj_data_size of
            Inl err \<Rightarrow> Inl err
          | Inr st' \<Rightarrow>
             if current_obj_data_pos + obj_data_size > end_pos then Inr st'
             else hirc_objects st' d end_pos (current_obj_data_pos + obj_data_size) n))"

definition parse_hirc ::
  "bank_parser \<Rightarrow> bytes \<Rightarrow> nat \<Rightarrow> nat \<Rightarrow> error + (bank_parser \<times> nat)" where
  "parse_hirc st d pos sz =
     (case unpack_from_I d pos of
        Inl err \<Rightarrow> Inl err
      | Inr num_objects \<Rightarrow>
         (case hirc_objects st d (pos + sz) (pos + 4) num_objects of
            Inl err \<Rightarrow> Inl err
          | Inr st' \<Rightarrow> Inr (st', pos + sz)))"

text \<open>The \<open>while pos < len(data)\<close> loop of \<open>parse\<close>, then \<open>parse\<close> itself.\<close>

function parse_chunks :: "bank_parser \<Rightarrow> bytes \<Rightarrow> nat \<Rightarrow> error + bank_parser" where
  "parse_chunks st d pos =
     (if pos < length d then
        (case read_chunk_header d pos of
           Inl err \<Rightarrow> Inl err
         | Inr (chunk_id, chunk_size, pos1) \<Rightarrow>
            if chunk_id = Some HIRC then
              (case parse_hirc st d pos1 chunk_size of
                 Inl err \<Rightarrow> Inl err
               | Inr (st', pos2) \<Rightarrow> parse_chunks st' d pos2)
            else if chunk_id = Some DIDX then
              (case parse_didx st d pos1 chunk_size of
                 Inl err \<Rightarrow> Inl err
               | Inr (st', pos2) \<Rightarrow> parse_chunks st' d pos2)
            else parse_chunks st d (pos1 + chunk_size))
      else Inr st)"
  by pat_completeness auto
termination
  by (relation "measure (\<lambda>(st, d, pos). length d - pos)")
     (auto simp: read_chunk_header_def parse_hirc_def parse_didx_def
           split: if_splits sum.splits)

declare parse_chunks.simps [simp del]

definition parse :: "bytes \<Rightarrow> error + bank_parser" where
  "parse d =
     (case parse_bkhd new_bank_parser d 0 of
        Inl err \<Rightarrow> Inl err
      | Inr (st, pos) \<Rightarrow> parse_chunks st d pos)"

section \<open>events_parser.py: linking events to audio\<close>

text \<open>\<open>_link_sound_to_audio\<close>: \<open>None in self.audio_files\<close> is false.\<close>

definition link_sound_to_audio :: "bank_parser \<Rightarrow> nat \<Rightarrow> nat set \<Rightarrow> nat set" where
  "link_sound_to_audio st sid audio_set =
     (case sounds st sid of
        None \<Rightarrow> audio_set
      | Some s \<Rightarrow>
         (case source_id s of
            None \<Rightarrow> audio_set
          | Some src \<Rightarrow> if src \<in> audio_files st then insert src audio_set else audio_set))"

text \<open>
  The list both \<open>_link_container_children\<close> and \<open>_link_recursive\<close> walk: the playlist
  item IDs, or the children when the playlist is empty.
\<close>

definition playlist_children :: "container \<Rightarrow> nat list" where
  "playlist_children c =
     (if map fst (playlist c) = [] then children c else map fst (playlist c))"

text \<open>
  \<open>_link_recursive\<close>, together with the loop that calls it:
  \<open>for child_id in playlist_children: self._link_recursive(child_id, audio_set)\<close> is
  \<open>link_recursive_all\<close> on the list, and the first branch of the case on the head is
  the body of \<open>_link_recursive\<close> for that child. The source keeps no record of the
  containers it has entered, so the recursion need not end: the value \<open>None\<close> is a
  walk that does not return (CPython stops it with \<open>RecursionError\<close>).
\<close>

partial_function (option) link_recursive_all ::
  "bank_parser \<Rightarrow> nat list \<Rightarrow> nat set \<Rightarrow> nat set option" where
  "link_recursive_all st ids audio_set =
     (case ids of
        [] \<Rightarrow> Some audio_set
      | obj_id # rest \<Rightarrow>
         (case sounds st obj_id of
            Some s \<Rightarrow> link_recursive_all st rest (link_sound_to_audio st obj_id audio_set)
          | None \<Rightarrow>
             (case containers st obj_id of
                Some c \<Rightarrow>
                  Option.bind (link_recursive_all st (playlist_children c) audio_set)
                    (\<lambda>audio_set'. link_recursive_all st rest audio_set')
              | None \<Rightarrow> link_recursive_all st rest audio_set)))"

declare link_recursive_all.simps [code]

definition link_recursive :: "bank_parser \<Rightarrow> nat \<Rightarrow> nat set \<Rightarrow> nat set option" where
  "link_recursive st obj_id audio_set = link_recursive_all st [obj_id] audio_set"






section \<open>Sample inputs and expected values\<close>

text \<open>
  A Sound record of 13 bytes: the ID 1, four bytes, one byte, and the source ID 7.
  Nine bytes follow the ID.
\<close>

definition sound_record_13 :: bytes where
  "sound_record_13 = [1, 0, 0, 0,  0, 0, 0, 0,  0,  7, 0, 0, 0]"

text \<open>The index entry that record \<open>i\<close> of a DIDX payload encodes.\<close>

definition entry_at :: "endian \<Rightarrow> bytes \<Rightarrow> nat \<Rightarrow> audio_entry" where
  "entry_at e bs i =
     \<lparr>id_entry = le_nat (order_bytes e (take 4 (drop (i * 12) bs))),
      offset = le_nat (order_bytes e (take 4 (drop (i * 12 + 4) bs))),
      size_entry = le_nat (order_bytes e (take 4 (drop (i * 12 + 8) bs))),
      data = None, replacement_path = None\<rparr>"

text \<open>
  A DIDX payload of 14 bytes: one entry (ID 1, offset 0, size 4) and two bytes more.
\<close>

definition didx_14 :: bytes where
  "didx_14 = [1, 0, 0, 0,  0, 0, 0, 0,  4, 0, 0, 0,  0xEE, 0xFF]"

text \<open>
  A loaded bank with two index entries, and a file system with one replacement file.
\<close>

definition two_entries :: "audio_entry list" where
  "two_entries =
     [\<lparr>id_entry = 1, offset = 0, size_entry = 2, data = Some [0xA0, 0xA1],
       replacement_path = None\<rparr>,
      \<lparr>id_entry = 2, offset = 2, size_entry = 3, data = Some [0xB0, 0xB1, 0xB2],
       replacement_path = None\<rparr>]"

definition two_entry_bank :: soundbank where
  "two_entry_bank =
     \<lparr>endian_of = Little,
      sections = [''BKHD'' \<mapsto> \<lparr>magic = ''BKHD'', sdata = [0x8C, 0, 0, 0]\<rparr>],
      audio_entries = two_entries, data_range = Some (52, 5), trailing_data = []\<rparr>"

definition one_file :: filesystem where
  "one_file = (\<lambda>p. if p = ''z.wem'' then Some (Readable [0x5A]) else None)"






text \<open>
  Three bank files of version 120, each a header chunk and a hierarchy chunk.
  In the first the only record is an Event that declares 8 bytes, its ID 7 and an action
  count of 2, and the file ends there. In the second the only record is an Action that
  declares 4 bytes, its ID 7. In the third an Event that declares 8 bytes, its ID 7 and
  an action count of 1, is followed by a Sound record of 4 bytes with the ID 9.
\<close>

definition short_event_file :: bytes where
  "short_event_file =
     [0x42, 0x4B, 0x48, 0x44,  4, 0, 0, 0,  120, 0, 0, 0,
      0x48, 0x49, 0x52, 0x43,  17, 0, 0, 0,
      1, 0, 0, 0,
      0x04,  8, 0, 0, 0,  7, 0, 0, 0,  2, 0, 0, 0]"

definition short_action_file :: bytes where
  "short_action_file =
     [0x42, 0x4B, 0x48, 0x44,  4, 0, 0, 0,  120, 0, 0, 0,
      0x48, 0x49, 0x52, 0x43,  13, 0, 0, 0,
      1, 0, 0, 0,
      0x03,  4, 0, 0, 0,  7, 0, 0, 0]"

definition event_then_sound_file :: bytes where
  "event_then_sound_file =
     [0x42, 0x4B, 0x48, 0x44,  4, 0, 0, 0,  120, 0, 0, 0,
      0x48, 0x49, 0x52, 0x43,  26, 0, 0, 0,
      2, 0, 0, 0,
      0x04,  8, 0, 0, 0,  7, 0, 0, 0,  1, 0, 0, 0,
      0x02,  4, 0, 0, 0,  9, 0, 0, 0]"

section \<open>Notions the patcher theorems are stated with\<close>

text \<open>The header section, when there is one, is filed under its own tag.\<close>

definition header_ok :: "soundbank \<Rightarrow> bool" where
  "header_ok bank =
     (case sections bank ''BKHD'' of None \<Rightarrow> True | Some s \<Rightarrow> magic s = ''BKHD'')"

text \<open>
  The payload \<open>_serialize_audio_data\<close> takes for an entry: the content of the queued
  replacement file, or else the payload read at load time.
\<close>

definition chosen_payload :: "filesystem \<Rightarrow> audio_entry \<Rightarrow> bytes" where
  "chosen_payload fs x =
     (case replacement_path x of
        Some p \<Rightarrow> (case fs p of Some (Readable c) \<Rightarrow> c | _ \<Rightarrow> [])
      | None \<Rightarrow> (case data x of Some d \<Rightarrow> d | None \<Rightarrow> []))"


text \<open>
  The size \<open>_rebuild_audio_index\<close> writes for an entry, and the index it writes for a
  list of entries from a starting offset on.
\<close>

definition written_size :: "filesystem \<Rightarrow> audio_entry \<Rightarrow> nat" where
  "written_size fs x = (case final_size fs x of Inl err \<Rightarrow> 0 | Inr n \<Rightarrow> n)"

fun written_index :: "filesystem \<Rightarrow> audio_entry list \<Rightarrow> nat \<Rightarrow> audio_entry list" where
  "written_index fs [] off = []"
| "written_index fs (x # xs) off =
     \<lparr>id_entry = id_entry x, offset = off, size_entry = written_size fs x,
      data = None, replacement_path = None\<rparr> # written_index fs xs (off + written_size fs x)"

text \<open>
  An entry without a replacement whose payload was read in full: as many bytes as the
  index declares (the read at load time is shorter when the file ends early).
\<close>

definition payload_complete :: "audio_entry \<Rightarrow> bool" where
  "payload_complete x =
     (case replacement_path x of
        Some p \<Rightarrow> True
      | None \<Rightarrow> (case data x of None \<Rightarrow> False | Some d \<Rightarrow> length d = size_entry x))"

text \<open>The index a reload of the saved bank yields, payloads included.\<close>

fun reloaded_index :: "filesystem \<Rightarrow> audio_entry list \<Rightarrow> nat \<Rightarrow> audio_entry list" where
  "reloaded_index fs [] off = []"
| "reloaded_index fs (x # xs) off =
     \<lparr>id_entry = id_entry x, offset = off, size_entry = length (chosen_payload fs x),
      data = Some (chosen_payload fs x), replacement_path = None\<rparr>
       # reloaded_index fs xs (off + length (chosen_payload fs x))"




section \<open>Sample banks\<close>

text \<open>
  A bank of version 140 with three payloads, \<open>A0 A1\<close>, \<open>B0 B1 B2\<close> and \<open>C0\<close>,
  followed by an empty HIRC chunk; the bank it loads to; that bank with the file
  \<open>z.wem\<close> queued for ID 2; and the file saving the latter gives.
\<close>

definition three_entry_file :: bytes where
  "three_entry_file =
     [0x42, 0x4B, 0x48, 0x44,  4, 0, 0, 0,  0x8C, 0, 0, 0,
      0x44, 0x49, 0x44, 0x58,  36, 0, 0, 0,
        1, 0, 0, 0,  0, 0, 0, 0,  2, 0, 0, 0,
        2, 0, 0, 0,  2, 0, 0, 0,  3, 0, 0, 0,
        3, 0, 0, 0,  5, 0, 0, 0,  1, 0, 0, 0,
      0x44, 0x41, 0x54, 0x41,  6, 0, 0, 0,
        0xA0, 0xA1, 0xB0, 0xB1, 0xB2, 0xC0,
      0x48, 0x49, 0x52, 0x43,  0, 0, 0, 0]"

definition three_entry_bank :: soundbank where
  "three_entry_bank =
     \<lparr>endian_of = Little,
      sections =
        [''BKHD'' \<mapsto> \<lparr>magic = ''BKHD'', sdata = [0x8C, 0, 0, 0]\<rparr>,
         ''DIDX'' \<mapsto> \<lparr>magic = ''DIDX'', sdata = take 36 (drop 20 three_entry_file)\<rparr>],
      audio_entries =
        [\<lparr>id_entry = 1, offset = 0, size_entry = 2, data = Some [0xA0, 0xA1],
          replacement_path = None\<rparr>,
         \<lparr>id_entry = 2, offset = 2, size_entry = 3, data = Some [0xB0, 0xB1, 0xB2],
          replacement_path = None\<rparr>,
         \<lparr>id_entry = 3, offset = 5, size_entry = 1, data = Some [0xC0],
          replacement_path = None\<rparr>],
      data_range = Some (64, 6),
      trailing_data = [0x48, 0x49, 0x52, 0x43,  0, 0, 0, 0]\<rparr>"

definition queued_bank :: soundbank where
  "queued_bank = three_entry_bank
     \<lparr>audio_entries :=
        [\<lparr>id_entry = 1, offset = 0, size_entry = 2, data = Some [0xA0, 0xA1],
          replacement_path = None\<rparr>,
         \<lparr>id_entry = 2, offset = 2, size_entry = 3, data = Some [0xB0, 0xB1, 0xB2],
          replacement_path = Some ''z.wem''\<rparr>,
         \<lparr>id_entry = 3, offset = 5, size_entry = 1, data = Some [0xC0],
          replacement_path = None\<rparr>]\<rparr>"

definition patched_file :: bytes where
  "patched_file =
     [0x42, 0x4B, 0x48, 0x44,  4, 0, 0, 0,  0x8C, 0, 0, 0,
      0x44, 0x49, 0x44, 0x58,  36, 0, 0, 0,
        1, 0, 0, 0,  0, 0, 0, 0,  2, 0, 0, 0,
        2, 0, 0, 0,  2, 0, 0, 0,  1, 0, 0, 0,
        3, 0, 0, 0,  3, 0, 0, 0,  1, 0, 0, 0,
      0x44, 0x41, 0x54, 0x41,  4, 0, 0, 0,
        0xA0, 0xA1, 0x5A, 0xC0,
      0x48, 0x49, 0x52, 0x43,  0, 0, 0, 0]"




definition short_data_file :: bytes where
  "short_data_file =
     [0x42, 0x4B, 0x48, 0x44,  4, 0, 0, 0,  0x8C, 0, 0, 0,
      0x44, 0x49, 0x44, 0x58,  12, 0, 0, 0,
        7, 0, 0, 0,  0, 0, 0, 0,  8, 0, 0, 0,
      0x44, 0x41, 0x54, 0x41,  3, 0, 0, 0,  0xD0, 0xD1, 0xD2]"

text \<open>
  A bank of version 120 whose header is followed by a chunk with the unknown tag
  \<open>XXXX\<close> (2 bytes), a HIRC chunk with one Sound record (ID 9, no source), a DIDX
  chunk with one entry (ID 5, offset 0, size 1) and a DATA chunk of one byte.
\<close>

definition mixed_file :: bytes where
  "mixed_file =
     [0x42, 0x4B, 0x48, 0x44,  4, 0, 0, 0,  120, 0, 0, 0,
      0x58, 0x58, 0x58, 0x58,  2, 0, 0, 0,  0xEE, 0xFF,
      0x48, 0x49, 0x52, 0x43,  13, 0, 0, 0,
        1, 0, 0, 0,  0x02,  4, 0, 0, 0,  9, 0, 0, 0,
      0x44, 0x49, 0x44, 0x58,  12, 0, 0, 0,  5, 0, 0, 0,  0, 0, 0, 0,  1, 0, 0, 0,
      0x44, 0x41, 0x54, 0x41,  1, 0, 0, 0,  0xAA]"

text \<open>
  A bank of version 120 in which an empty HIRC chunk stands between the header and
  the DIDX chunk (one entry: ID 5, offset 0, size 1), with a DATA chunk of one byte.
\<close>

definition hirc_first_file :: bytes where
  "hirc_first_file =
     [0x42, 0x4B, 0x48, 0x44,  4, 0, 0, 0,  120, 0, 0, 0,
      0x48, 0x49, 0x52, 0x43,  4, 0, 0, 0,  0, 0, 0, 0,
      0x44, 0x49, 0x44, 0x58,  12, 0, 0, 0,  5, 0, 0, 0,  0, 0, 0, 0,  1, 0, 0, 0,
      0x44, 0x41, 0x54, 0x41,  1, 0, 0, 0,  0xAA]"

section \<open>Sound records\<close>

text \<open>
  Claim C9, as the code has it. For a Sound record whose ID lies inside the buffer, the
  first \<open>u32\<close> is the sound ID. The source ID is read, after skipping 4 bytes and
  then 1 byte, exactly when the declared size of the record is at least 13 bytes, the
  4 bytes of the ID included: that is, when at least 9 bytes follow the ID (not 13).
  With a smaller declared size the Sound has no source. The read at offset 9 is checked
  against the declared size only, so it raises \<open>struct.error\<close> when the buffer ends
  before the record does.
\<close>

theorem parse_sound_source:
  assumes "pos + 4 \<le> length d"
  shows "parse_sound d pos sz =
    (if sz < 13
     then Inr (Some \<lparr>sound_id = le_nat (take 4 (drop pos d)), source_id = None\<rparr>)
     else if pos + 13 \<le> length d
     then Inr (Some \<lparr>sound_id = le_nat (take 4 (drop pos d)),
                     source_id = Some (le_nat (take 4 (drop (pos + 9) d)))\<rparr>)
     else Inl StructError)"
  using assms by (auto simp: parse_sound_def unpack_from_I_def add.commute)

theorem parse_sound_source_witness:
  "parse_sound sound_record_13 0 13 = Inr (Some \<lparr>sound_id = 1, source_id = Some 7\<rparr>)
   \<and> parse_sound sound_record_13 0 12 = Inr (Some \<lparr>sound_id = 1, source_id = None\<rparr>)"
  using parse_sound_source [of 0 sound_record_13 13]
    parse_sound_source [of 0 sound_record_13 12]
  by (simp add: sound_record_13_def)

text \<open>
  The claim as stated asks for 13 bytes after the ID. This record has 9, and its
  source is read.
\<close>

theorem sound_nine_bytes_after_id_counterexample:
  "length sound_record_13 - 4 = 9 \<and>
   parse_sound sound_record_13 0 (length sound_record_13)
     = Inr (Some \<lparr>sound_id = 1, source_id = Some 7\<rparr>)"
  by (simp add: sound_record_13_def parse_sound_def unpack_from_I_def)

section \<open>The audio index chunk\<close>

lemma unpack_III_slice:
  assumes "(i + 1) * 12 \<le> length bs"
  shows "unpack_III e (take 12 (drop (i * 12) bs)) =
    Inr (le_nat (order_bytes e (take 4 (drop (i * 12) bs))),
         le_nat (order_bytes e (take 4 (drop (i * 12 + 4) bs))),
         le_nat (order_bytes e (take 4 (drop (i * 12 + 8) bs))))"
  using assms by (simp add: unpack_III_def drop_take add.commute)

lemma catalog_entries_eq:
  "(i + n) * 12 \<le> length bs \<Longrightarrow>
   catalog_entries e bs i n = Inr (map (entry_at e bs) [i ..< i + n])"
proof (induction n arbitrary: i)
  case 0 show ?case by simp
next
  case (Suc n)
  from Suc.prems have a: "(i + 1) * 12 \<le> length bs" and b: "(Suc i + n) * 12 \<le> length bs"
    by simp_all
  have u: "[i ..< i + Suc n] = i # [Suc i ..< Suc i + n]"
    by (simp add: upt_conv_Cons)
  show ?case
    unfolding u using Suc.IH [OF b] unpack_III_slice [OF a, of e]
    by (simp add: entry_at_def)
qed

lemma extract_audio_catalog_eq:
  assumes "secs ''DIDX'' = Some s"
  shows "extract_audio_catalog e secs =
    Inr (map (entry_at e (sdata s)) [0 ..< length (sdata s) div 12])"
proof -
  have "(0 + length (sdata s) div 12) * 12 \<le> length (sdata s)" by simp
  from catalog_entries_eq [OF this, of e] assms show ?thesis
    by (simp add: extract_audio_catalog_def)
qed

lemma didx_files_eq:
  "pos + 12 * n \<le> end_pos \<Longrightarrow> end_pos \<le> length d \<Longrightarrow>
   didx_files st d end_pos pos n =
     Inr (st\<lparr>audio_files := audio_files st \<union>
            (\<lambda>i. le_nat (take 4 (drop (pos + 12 * i) d))) ` {..<n}\<rparr>)"
proof (induction n arbitrary: pos st)
  case 0 show ?case by simp
next
  case (Suc n)
  have img: "(\<lambda>i. le_nat (take 4 (drop (pos + 12 * i) d))) ` {..<Suc n} =
     insert (le_nat (take 4 (drop pos d)))
       ((\<lambda>i. le_nat (take 4 (drop (pos + 12 + 12 * i) d))) ` {..<n})"
    by (auto simp: lessThan_Suc_eq_insert_0 image_image add.assoc)
  from Suc.prems have "pos + 12 + 12 * n \<le> end_pos" by simp
  from Suc.IH [OF this Suc.prems(2)] Suc.prems show ?case
    by (simp add: unpack_from_I_def img)
qed

text \<open>
  Claim C10. A DIDX payload whose length is not a multiple of 12 raises nothing in
  either parser, and the bytes after the last whole record are never read. The patcher
  produces \<open>length div 12\<close> entries, entry \<open>i\<close> being the three \<open>u32\<close> values
  (id, offset, size) at byte \<open>12 * i\<close> of the payload, in the configured byte order.
  The event parser, for a chunk that lies inside the buffer, makes \<open>size div 12\<close>
  turns, one per 12-byte record, and keeps the little-endian \<open>u32\<close> ID that starts
  each record in its set of audio file IDs; it returns the end of the chunk.
\<close>

theorem didx_remainder_ignored:
  assumes "secs ''DIDX'' = Some s" and "pos + sz \<le> length d"
  shows "extract_audio_catalog e secs =
           Inr (map (entry_at e (sdata s)) [0 ..< length (sdata s) div 12])
         \<and> parse_didx st d pos sz =
           Inr (st\<lparr>audio_files := audio_files st \<union>
                  (\<lambda>i. le_nat (take 4 (drop (pos + 12 * i) d))) ` {..< sz div 12}\<rparr>,
                pos + sz)"
proof -
  have "pos + 12 * (sz div 12) \<le> pos + sz" by simp
  from didx_files_eq [OF this assms(2), of st]
    extract_audio_catalog_eq [of secs s e, OF assms(1)]
  show ?thesis by (simp add: parse_didx_def)
qed

theorem didx_remainder_ignored_witness:
  "extract_audio_catalog Little [''DIDX'' \<mapsto> \<lparr>magic = ''DIDX'', sdata = didx_14\<rparr>] =
     Inr [\<lparr>id_entry = 1, offset = 0, size_entry = 4, data = None, replacement_path = None\<rparr>]
   \<and> parse_didx new_bank_parser didx_14 0 14 =
     Inr (new_bank_parser\<lparr>audio_files := {1}\<rparr>, 14)"
  using didx_remainder_ignored [of "[''DIDX'' \<mapsto> \<lparr>magic = ''DIDX'', sdata = didx_14\<rparr>]"
      "\<lparr>magic = ''DIDX'', sdata = didx_14\<rparr>" 0 14 didx_14 Little new_bank_parser]
  by (simp add: didx_14_def entry_at_def order_bytes_def new_bank_parser_def
        lessThan_Suc upt_conv_Cons)

section \<open>Queueing a replacement\<close>

lemma find_audio_entry_None:
  "(find_audio_entry xs aid = None) = (aid \<notin> id_entry ` set xs)"
  by (induction xs) (auto simp: find_audio_entry_def)

lemma set_replacement_split:
  "aid \<in> id_entry ` set xs \<Longrightarrow>
   \<exists>ys x zs. xs = ys @ x # zs \<and> id_entry x = aid \<and> aid \<notin> id_entry ` set ys \<and>
     set_replacement aid p xs = ys @ x\<lparr>replacement_path := Some p\<rparr> # zs"
proof (induction xs)
  case Nil then show ?case by simp
next
  case (Cons a xs)
  show ?case
  proof (cases "id_entry a = aid")
    case True
    then have "a # xs = [] @ a # xs \<and> id_entry a = aid \<and> aid \<notin> id_entry ` set [] \<and>
      set_replacement aid p (a # xs) = [] @ a\<lparr>replacement_path := Some p\<rparr> # xs"
      by simp
    then show ?thesis by blast
  next
    case False
    with Cons.prems have "aid \<in> id_entry ` set xs" by auto
    from Cons.IH [OF this] obtain ys x zs where
      h: "xs = ys @ x # zs" "id_entry x = aid" "aid \<notin> id_entry ` set ys"
         "set_replacement aid p xs = ys @ x\<lparr>replacement_path := Some p\<rparr> # zs"
      by blast
    with False have "a # xs = (a # ys) @ x # zs \<and> id_entry x = aid \<and>
      aid \<notin> id_entry ` set (a # ys) \<and>
      set_replacement aid p (a # xs) = (a # ys) @ x\<lparr>replacement_path := Some p\<rparr> # zs"
      by auto
    then show ?thesis by blast
  qed
qed

lemma set_replacement_ids:
  "id_entry ` set (set_replacement aid p xs) = id_entry ` set xs"
  by (induction xs) auto

lemma set_replacement_twice:
  "set_replacement aid q (set_replacement aid p xs) = set_replacement aid q xs"
  by (induction xs) auto

text \<open>
  Claim C7, as the code has it. \<open>replace_audio\<close> raises \<open>KeyError\<close> exactly when the
  ID is not in the audio index. For an ID that is in the index the outcome depends on
  the replacement file: when it does not exist the call raises \<open>FileNotFoundError\<close>
  (and records nothing); when it exists the call succeeds and records the path on the
  first entry of the index with that ID, leaving every other entry as it was. Queueing
  twice for the same ID leaves the bank that queueing the later file alone gives.
\<close>

theorem replace_audio_spec:
  "(replace_audio fs bank aid p = Inl KeyError
      \<longleftrightarrow> aid \<notin> id_entry ` set (audio_entries bank))
   \<and> (aid \<in> id_entry ` set (audio_entries bank) \<longrightarrow>
        (if exists_path fs p then
           (\<exists>ys x zs. audio_entries bank = ys @ x # zs \<and> id_entry x = aid \<and>
              aid \<notin> id_entry ` set ys \<and>
              replace_audio fs bank aid p =
                Inr (bank\<lparr>audio_entries := ys @ x\<lparr>replacement_path := Some p\<rparr> # zs\<rparr>))
         else replace_audio fs bank aid p = Inl FileNotFoundError))
   \<and> (\<forall>b1 b2. replace_audio fs bank aid p = Inr b1 \<longrightarrow>
        replace_audio fs b1 aid q = Inr b2 \<longrightarrow> replace_audio fs bank aid q = Inr b2)"
proof (intro conjI)
  show "replace_audio fs bank aid p = Inl KeyError
      \<longleftrightarrow> aid \<notin> id_entry ` set (audio_entries bank)"
    using find_audio_entry_None [of "audio_entries bank" aid]
    by (auto simp: replace_audio_def split: option.splits)
next
  show "aid \<in> id_entry ` set (audio_entries bank) \<longrightarrow>
        (if exists_path fs p then
           (\<exists>ys x zs. audio_entries bank = ys @ x # zs \<and> id_entry x = aid \<and>
              aid \<notin> id_entry ` set ys \<and>
              replace_audio fs bank aid p =
                Inr (bank\<lparr>audio_entries := ys @ x\<lparr>replacement_path := Some p\<rparr> # zs\<rparr>))
         else replace_audio fs bank aid p = Inl FileNotFoundError)"
  proof
    assume a: "aid \<in> id_entry ` set (audio_entries bank)"
    then have f: "find_audio_entry (audio_entries bank) aid \<noteq> None"
      by (simp add: find_audio_entry_None)
    show "if exists_path fs p then
           (\<exists>ys x zs. audio_entries bank = ys @ x # zs \<and> id_entry x = aid \<and>
              aid \<notin> id_entry ` set ys \<and>
              replace_audio fs bank aid p =
                Inr (bank\<lparr>audio_entries := ys @ x\<lparr>replacement_path := Some p\<rparr> # zs\<rparr>))
         else replace_audio fs bank aid p = Inl FileNotFoundError"
    proof (cases "exists_path fs p")
      case True
      from set_replacement_split [OF a, of p] obtain ys x zs where
        h: "audio_entries bank = ys @ x # zs" "id_entry x = aid" "aid \<notin> id_entry ` set ys"
           "set_replacement aid p (audio_entries bank)
              = ys @ x\<lparr>replacement_path := Some p\<rparr> # zs"
        by blast
      from f True h(4) have "replace_audio fs bank aid p =
          Inr (bank\<lparr>audio_entries := ys @ x\<lparr>replacement_path := Some p\<rparr> # zs\<rparr>)"
        by (auto simp: replace_audio_def split: option.splits)
      with h True show ?thesis by auto
    next
      case False
      with f show ?thesis by (auto simp: replace_audio_def split: option.splits)
    qed
  qed
next
  show "\<forall>b1 b2. replace_audio fs bank aid p = Inr b1 \<longrightarrow>
        replace_audio fs b1 aid q = Inr b2 \<longrightarrow> replace_audio fs bank aid q = Inr b2"
  proof (intro allI impI)
    fix b1 b2
    assume 1: "replace_audio fs bank aid p = Inr b1"
      and 2: "replace_audio fs b1 aid q = Inr b2"
    from 1 have b1: "b1 = bank\<lparr>audio_entries := set_replacement aid p (audio_entries bank)\<rparr>"
      and f: "find_audio_entry (audio_entries bank) aid \<noteq> None"
      by (auto simp: replace_audio_def split: option.splits if_splits)
    from 2 have "exists_path fs q"
      and "b2 = b1\<lparr>audio_entries := set_replacement aid q (audio_entries b1)\<rparr>"
      by (auto simp: replace_audio_def split: option.splits if_splits)
    with b1 f show "replace_audio fs bank aid q = Inr b2"
      by (auto simp: replace_audio_def set_replacement_twice split: option.splits)
  qed
qed

theorem replace_audio_spec_witness:
  "replace_audio one_file two_entry_bank 2 ''z.wem'' =
     Inr (two_entry_bank\<lparr>audio_entries :=
        [\<lparr>id_entry = 1, offset = 0, size_entry = 2, data = Some [0xA0, 0xA1],
          replacement_path = None\<rparr>,
         \<lparr>id_entry = 2, offset = 2, size_entry = 3, data = Some [0xB0, 0xB1, 0xB2],
          replacement_path = Some ''z.wem''\<rparr>]\<rparr>)
   \<and> replace_audio one_file two_entry_bank 9 ''z.wem'' = Inl KeyError"
  using replace_audio_spec [of one_file two_entry_bank 2 "''z.wem''" "''z.wem''"]
    replace_audio_spec [of one_file two_entry_bank 9 "''z.wem''" "''z.wem''"]
  by (simp add: replace_audio_def find_audio_entry_def two_entry_bank_def two_entries_def
        one_file_def exists_path_def)

text \<open>
  The claim as stated promises success for every ID of the index. ID 2 is in the index,
  the replacement file does not exist, and the call raises.
\<close>

theorem replace_audio_missing_file_counterexample:
  "find_audio_entry (audio_entries two_entry_bank) 2 \<noteq> None
   \<and> replace_audio one_file two_entry_bank 2 ''missing.wem'' = Inl FileNotFoundError"
  by (simp add: replace_audio_def find_audio_entry_def two_entry_bank_def two_entries_def
        one_file_def exists_path_def)

section \<open>Event resolution\<close>











section \<open>Truncated object records\<close>

text \<open>
  Claim C6 at three inputs. \<open>_parse_hirc\<close> does step by the declared size of each
  record, and \<open>_parse_action\<close> turns a record that is too short into an Action whose
  missing fields are \<open>None\<close>. \<open>_parse_event\<close> never looks at the declared size: an
  Event whose declared 8 bytes hold no room for the 2 action IDs it announces makes the
  whole parse raise \<open>struct.error\<close> when the buffer ends there, and when another
  record follows, its bytes are read as the action ID (here \<open>0x0402\<close>, the type byte
  and size of the Sound record), while the Sound record is still found at the declared
  offset.
\<close>

theorem parse_event_ignores_declared_size:
  "parse short_event_file = Inl StructError
   \<and> (case parse short_action_file of Inl err \<Rightarrow> None | Inr st \<Rightarrow> actions st 7)
       = Some \<lparr>action_id = 7, target_id = None, action_type = None\<rparr>
   \<and> (case parse event_then_sound_file of Inl err \<Rightarrow> None
       | Inr st \<Rightarrow> Some (events st, sounds st 9))
       = Some ([\<lparr>event_id = 7, event_actions = [0x0402], event_audio_file_ids = {}\<rparr>],
               Some \<lparr>sound_id = 9, source_id = None\<rparr>)"
proof -
  have "(case parse short_event_file of Inl err \<Rightarrow> Some err | Inr st \<Rightarrow> None)
      = Some StructError"
    by code_simp
  then have 1: "parse short_event_file = Inl StructError"
    by (cases "parse short_event_file") auto
  have 2: "(case parse short_action_file of Inl err \<Rightarrow> None | Inr st \<Rightarrow> actions st 7)
       = Some \<lparr>action_id = 7, target_id = None, action_type = None\<rparr>"
    by code_simp
  have 3: "(case parse event_then_sound_file of Inl err \<Rightarrow> None
       | Inr st \<Rightarrow> Some (events st, sounds st 9))
       = Some ([\<lparr>event_id = 7, event_actions = [0x0402], event_audio_file_ids = {}\<rparr>],
               Some \<lparr>sound_id = 9, source_id = None\<rparr>)"
    by code_simp
  from 1 2 3 show ?thesis by blast
qed

section \<open>Packing and unpacking\<close>

lemma length_le_bytes [simp]: "length (le_bytes k n) = k"
  by (induction k arbitrary: n) auto

lemma le_nat_le_bytes: "le_nat (le_bytes k n) = n mod 256 ^ k"
proof (induction k arbitrary: n)
  case 0 show ?case by simp
next
  case (Suc k)
  have "unat (of_nat n :: byte) = n mod 256" by (simp add: unat_of_nat)
  then show ?case using Suc by (simp add: mod_mult2_eq)
qed

lemma length_order_bytes [simp]: "length (order_bytes e bs) = length bs"
  by (cases e) (simp_all add: order_bytes_def)

lemma order_bytes_twice [simp]: "order_bytes e (order_bytes e bs) = bs"
  by (cases e) (simp_all add: order_bytes_def)

lemma le_nat_u32 [simp]: "n < 2 ^ 32 \<Longrightarrow> le_nat (le_bytes 4 n) = n"
  using le_nat_le_bytes [of 4 n] by simp

lemma unpack_pack_I: "pack_I e n = Inr bs \<Longrightarrow> unpack_I e bs = Inr n"
  by (auto simp: pack_I_def unpack_I_def split: if_splits)


lemma pack_III_length: "pack_III e a b c = Inr bs \<Longrightarrow> length bs = 12"
  by (auto simp: pack_III_def split: if_splits)

lemma unpack_pack_III: "pack_III e a b c = Inr bs \<Longrightarrow> unpack_III e bs = Inr (a, b, c)"
  by (auto simp: pack_III_def unpack_III_def split: if_splits)

lemma tag_codes:
  "encode_ascii ''BKHD'' = Inr BKHD" "encode_ascii ''DIDX'' = Inr DIDX"
  "encode_ascii ''DATA'' = Inr DATA"
  "decode_ascii_ignore BKHD = ''BKHD''" "decode_ascii_ignore DIDX = ''DIDX''"
  "decode_ascii_ignore DATA = ''DATA''" "decode_ascii_ignore HIRC = ''HIRC''"
  by (simp_all add: encode_ascii_def BKHD_def DIDX_def DATA_def HIRC_def) code_simp+

lemma le_bytes_4:
  "le_bytes 4 n =
     [of_nat n, of_nat (n div 256), of_nat (n div 256 div 256), of_nat (n div 256 div 256 div 256)]"
proof -
  have e: "(4::nat) = Suc (Suc (Suc (Suc 0)))" by simp
  show ?thesis by (subst e) simp
qed

lemmas save_eval = save_def serialize_def tag_codes BKHD_def DIDX_def DATA_def pack_I_def
  pack_III_def order_bytes_def le_bytes_4 final_size_def read_file_def st_size_def

section \<open>One turn of the section loop\<close>




lemma parse_sections_stop:
  assumes "4 \<le> length (drop pos buf)"
    and "decode_ascii_ignore (take 4 (drop pos buf)) \<notin> {''BKHD'', ''DIDX'', ''DATA''}"
  shows "parse_sections e buf pos secs = Inr (secs, None, drop pos buf)"
  apply (subst parse_sections.simps)
  using assms by (simp add: read_def)

lemma parse_sections_eof:
  assumes "length (drop pos buf) < 4"
  shows "parse_sections e buf pos secs = Inr (secs, None, [])"
  apply (subst parse_sections.simps)
  using assms by (simp add: read_def)

section \<open>What save writes, and how it loads\<close>

lemma serialize_parts:
  assumes "serialize e s = Inr w"
  obtains tag len where "encode_ascii (magic s) = Inr tag"
    "pack_I e (length (sdata s)) = Inr len" "w = tag @ len @ sdata s"
  using assms by (auto simp: serialize_def split: sum.splits)

lemma save_parts:
  assumes "save fs bank = (out, Inr ())"
  obtains w1 didx w2 audio w3 where
    "(case sections bank ''BKHD'' of None \<Rightarrow> Inr [] | Some s \<Rightarrow> serialize (endian_of bank) s)
       = Inr w1"
    "rebuild_audio_index (endian_of bank) fs (audio_entries bank) 0 = Inr didx"
    "serialize (endian_of bank) \<lparr>magic = ''DIDX'', sdata = didx\<rparr> = Inr w2"
    "serialize_audio_data fs (audio_entries bank) = Inr audio"
    "serialize (endian_of bank) \<lparr>magic = ''DATA'', sdata = audio\<rparr> = Inr w3"
    "out = w1 @ w2 @ w3 @ trailing_data bank"
  using assms by (auto simp: save_def split: sum.splits)


lemma rebuild_length:
  "rebuild_audio_index e fs xs off = Inr didx \<Longrightarrow> length didx = 12 * length xs"
proof (induction xs arbitrary: off didx)
  case Nil then show ?case by simp
next
  case (Cons x xs)
  then show ?case
    by (auto split: sum.splits dest: pack_III_length)
qed

lemma rebuild_catalog:
  "rebuild_audio_index e fs xs off = Inr didx \<Longrightarrow> length pre = 12 * i \<Longrightarrow>
   catalog_entries e (pre @ didx) i (length xs) = Inr (written_index fs xs off)"
proof (induction xs arbitrary: off didx pre i)
  case Nil then show ?case by simp
next
  case (Cons x xs)
  from Cons.prems(1) obtain fsz r rest where
    f: "final_size fs x = Inr fsz" and r: "pack_III e (id_entry x) off fsz = Inr r"
    and rest: "rebuild_audio_index e fs xs (off + fsz) = Inr rest" and d: "didx = r @ rest"
    by (auto split: sum.splits)
  have r12: "length r = 12" using r by (rule pack_III_length)
  have "length (pre @ r) = 12 * Suc i" using Cons.prems(2) r12 by simp
  from Cons.IH [OF rest this] have ih:
    "catalog_entries e (pre @ didx) (Suc i) (length xs) = Inr (written_index fs xs (off + fsz))"
    by (simp add: d)
  have "take 12 (drop (i * 12) (pre @ didx)) = r"
    using Cons.prems(2) r12 by (simp add: d mult.commute)
  with unpack_pack_III [OF r] ih f show ?case
    by (simp add: written_size_def)
qed

lemma serialize_audio_concat:
  "serialize_audio_data fs xs = Inr audio \<Longrightarrow> audio = concat (map (chosen_payload fs) xs)"
proof (induction xs arbitrary: audio)
  case Nil then show ?case by simp
next
  case (Cons x xs)
  then show ?case
    by (auto simp: chosen_payload_def read_file_def
          split: sum.splits option.splits fs_node.splits)
qed

lemma written_size_chosen:
  "serialize_audio_data fs xs = Inr audio \<Longrightarrow> x \<in> set xs \<Longrightarrow> payload_complete x \<Longrightarrow>
   written_size fs x = length (chosen_payload fs x)"
proof (induction xs arbitrary: audio)
  case Nil then show ?case by simp
next
  case (Cons y ys)
  then show ?case
    by (auto simp: chosen_payload_def read_file_def written_size_def final_size_def
          st_size_def payload_complete_def
          split: sum.splits option.splits fs_node.splits)
qed




lemma length_reloaded_index [simp]: "length (reloaded_index fs xs off) = length xs"
  by (induction xs arbitrary: off) auto

lemma length_written_index [simp]: "length (written_index fs xs off) = length xs"
  by (induction xs arbitrary: off) auto


section \<open>Evaluating the sample banks\<close>


lemma queued_bank_saved: "save one_file queued_bank = (patched_file, Inr ())"
  by (simp add: save_eval queued_bank_def three_entry_bank_def one_file_def patched_file_def)

lemma queued_bank_ok:
  "header_ok queued_bank" "\<forall>x \<in> set (audio_entries queued_bank). payload_complete x"
  by (simp_all add: header_ok_def payload_complete_def queued_bank_def three_entry_bank_def)

section \<open>The replacement law\<close>




section \<open>Round trip\<close>



lemma entry_at_simps [simp]:
  "replacement_path (entry_at e bs i) = None"
  by (simp add: entry_at_def)






section \<open>Offsets and sizes of the written index\<close>

lemma written_index_offsets:
  "i < length xs \<Longrightarrow>
   offset (written_index fs xs off ! i)
     = off + sum_list (map size_entry (take i (written_index fs xs off)))"
proof (induction xs arbitrary: i off)
  case Nil then show ?case by simp
next
  case (Cons x xs)
  then show ?case by (cases i) auto
qed

lemma written_sizes_sum:
  "\<forall>x \<in> set xs. written_size fs x = length (chosen_payload fs x) \<Longrightarrow>
   sum_list (map size_entry (written_index fs xs off))
     = length (concat (map (chosen_payload fs) xs))"
  by (induction xs arbitrary: off) auto

text \<open>
  Claim C3, as the code has it. When \<open>save\<close> succeeds, the output is what was written
  for the header, then the chunk \<open>DIDX\<close> with its length and the chunk \<open>DATA\<close> with
  its length, then the trailing bytes. The index holds one record of 12 bytes per entry,
  and the offset of every record is the sum of the sizes of the records before it (0
  for the first). The length of the DATA payload is the sum of the written sizes when
  every entry without a replacement holds as many payload bytes as it declares.
\<close>

theorem offset_prefix_sums:
  assumes sv: "save fs bank = (out, Inr ())"
  shows "\<exists>w1 l2 didx l3 audio ys.
     out = w1 @ DIDX @ l2 @ didx @ DATA @ l3 @ audio @ trailing_data bank \<and>
     unpack_I (endian_of bank) l2 = Inr (length didx) \<and>
     unpack_I (endian_of bank) l3 = Inr (length audio) \<and>
     length didx = 12 * length (audio_entries bank) \<and>
     catalog_entries (endian_of bank) didx 0 (length (audio_entries bank)) = Inr ys \<and>
     length ys = length (audio_entries bank) \<and>
     (\<forall>i < length ys. offset (ys ! i) = sum_list (map size_entry (take i ys))) \<and>
     ((\<forall>x \<in> set (audio_entries bank). payload_complete x) \<longrightarrow>
        length audio = sum_list (map size_entry ys))"
proof -
  let ?e = "endian_of bank" and ?xs = "audio_entries bank"
  from sv obtain w1 didx w2 audio w3 where
    p: "rebuild_audio_index ?e fs ?xs 0 = Inr didx"
      "serialize ?e \<lparr>magic = ''DIDX'', sdata = didx\<rparr> = Inr w2"
      "serialize_audio_data fs ?xs = Inr audio"
      "serialize ?e \<lparr>magic = ''DATA'', sdata = audio\<rparr> = Inr w3"
      "out = w1 @ w2 @ w3 @ trailing_data bank"
    by (rule save_parts)
  from p(2) obtain l2 where l2: "pack_I ?e (length didx) = Inr l2" "w2 = DIDX @ l2 @ didx"
    by (auto elim!: serialize_parts simp: tag_codes)
  from p(4) obtain l3 where l3: "pack_I ?e (length audio) = Inr l3" "w3 = DATA @ l3 @ audio"
    by (auto elim!: serialize_parts simp: tag_codes)
  let ?ys = "written_index fs ?xs 0"
  have c: "catalog_entries ?e didx 0 (length ?xs) = Inr ?ys"
    using rebuild_catalog [OF p(1), of "[]" 0] by simp
  have o: "\<forall>i < length ?ys. offset (?ys ! i) = sum_list (map size_entry (take i ?ys))"
    using written_index_offsets [of _ ?xs fs 0] by simp
  have s: "(\<forall>x \<in> set ?xs. payload_complete x) \<longrightarrow> length audio = sum_list (map size_entry ?ys)"
  proof
    assume "\<forall>x \<in> set ?xs. payload_complete x"
    with written_size_chosen [OF p(3)] have
      "\<forall>x \<in> set ?xs. written_size fs x = length (chosen_payload fs x)" by blast
    from written_sizes_sum [OF this, of 0] serialize_audio_concat [OF p(3)]
    show "length audio = sum_list (map size_entry ?ys)" by simp
  qed
  have "out = w1 @ DIDX @ l2 @ didx @ DATA @ l3 @ audio @ trailing_data bank"
    using p(5) l2(2) l3(2) by simp
  with unpack_pack_I [OF l2(1)] unpack_pack_I [OF l3(1)] rebuild_length [OF p(1)] c o s
  show ?thesis by (intro exI [of _ w1] exI [of _ l2] exI [of _ didx] exI [of _ l3]
      exI [of _ audio] exI [of _ ?ys]) simp
qed

theorem offset_prefix_sums_witness:
  "save one_file queued_bank = (patched_file, Inr ()) \<and>
   (\<exists>w1 l2 didx l3 audio ys.
     patched_file = w1 @ DIDX @ l2 @ didx @ DATA @ l3 @ audio @ trailing_data queued_bank \<and>
     catalog_entries (endian_of queued_bank) didx 0 (length (audio_entries queued_bank))
       = Inr ys \<and>
     length ys = 3 \<and>
     offset (ys ! 0) = 0 \<and>
     offset (ys ! 1) = size_entry (ys ! 0) \<and>
     offset (ys ! 2) = size_entry (ys ! 0) + size_entry (ys ! 1) \<and>
     length audio = sum_list (map size_entry ys))"
proof -
  from offset_prefix_sums [OF queued_bank_saved] obtain w1 l2 didx l3 audio ys where
    o: "patched_file = w1 @ DIDX @ l2 @ didx @ DATA @ l3 @ audio @ trailing_data queued_bank"
    and c: "catalog_entries (endian_of queued_bank) didx 0 (length (audio_entries queued_bank))
       = Inr ys"
    and n: "length ys = length (audio_entries queued_bank)"
    and p: "\<forall>i < length ys. offset (ys ! i) = sum_list (map size_entry (take i ys))"
    and s: "(\<forall>x \<in> set (audio_entries queued_bank). payload_complete x) \<longrightarrow>
        length audio = sum_list (map size_entry ys)"
    by blast
  have n3: "length ys = 3" using n by (simp add: queued_bank_def three_entry_bank_def)
  then obtain y0 y1 y2 where ys: "ys = [y0, y1, y2]"
    by (cases ys; simp; rename_tac a as; case_tac as; simp; rename_tac b bs; case_tac bs; simp)
  from p n3 have "offset (ys ! 0) = sum_list (map size_entry (take 0 ys))"
    "offset (ys ! 1) = sum_list (map size_entry (take 1 ys))"
    "offset (ys ! 2) = sum_list (map size_entry (take 2 ys))"
    by simp_all
  then have p3: "offset (ys ! 0) = 0" "offset (ys ! 1) = size_entry (ys ! 0)"
    "offset (ys ! 2) = size_entry (ys ! 0) + size_entry (ys ! 1)"
    by (simp_all add: ys)
  from s queued_bank_ok(2) have "length audio = sum_list (map size_entry ys)" by blast
  with o c n3 p3 queued_bank_saved show ?thesis by blast
qed

text \<open>
  The claim as stated has the DATA payload as long as the sum of the written sizes in
  every output. In this bank the index entry declares 8 bytes and only 3 can be read:
  the size written is 8, and the DATA payload written has 3 bytes.
\<close>

theorem data_shorter_than_index_counterexample:
  "(case load_soundbank Little short_data_file of
      Inl err \<Rightarrow> False
    | Inr b \<Rightarrow>
       save one_file b =
         ([0x42, 0x4B, 0x48, 0x44,  4, 0, 0, 0,  0x8C, 0, 0, 0,
           0x44, 0x49, 0x44, 0x58,  12, 0, 0, 0,
             7, 0, 0, 0,  0, 0, 0, 0,  8, 0, 0, 0,
           0x44, 0x41, 0x54, 0x41,  3, 0, 0, 0,  0xD0, 0xD1, 0xD2], Inr ()) \<and>
       map size_entry (written_index one_file (audio_entries b) 0) = [8] \<and>
       serialize_audio_data one_file (audio_entries b) = Inr [0xD0, 0xD1, 0xD2])"
proof -
  have ld: "(case load_soundbank Little short_data_file of
      Inl err \<Rightarrow> False
    | Inr b \<Rightarrow> endian_of b = Little \<and>
        audio_entries b = [\<lparr>id_entry = 7, offset = 0, size_entry = 8,
          data = Some [0xD0, 0xD1, 0xD2], replacement_path = None\<rparr>] \<and>
        sections b ''BKHD'' = Some \<lparr>magic = ''BKHD'', sdata = [0x8C, 0, 0, 0]\<rparr> \<and>
        trailing_data b = [])"
    by code_simp
  show ?thesis
  proof (cases "load_soundbank Little short_data_file")
    case (Inl err)
    with ld show ?thesis by simp
  next
    case (Inr b)
    with ld have f: "endian_of b = Little"
      "audio_entries b = [\<lparr>id_entry = 7, offset = 0, size_entry = 8,
          data = Some [0xD0, 0xD1, 0xD2], replacement_path = None\<rparr>]"
      "sections b ''BKHD'' = Some \<lparr>magic = ''BKHD'', sdata = [0x8C, 0, 0, 0]\<rparr>"
      "trailing_data b = []"
      by simp_all
    have 1: "save one_file b =
         ([0x42, 0x4B, 0x48, 0x44,  4, 0, 0, 0,  0x8C, 0, 0, 0,
           0x44, 0x49, 0x44, 0x58,  12, 0, 0, 0,
             7, 0, 0, 0,  0, 0, 0, 0,  8, 0, 0, 0,
           0x44, 0x41, 0x54, 0x41,  3, 0, 0, 0,  0xD0, 0xD1, 0xD2], Inr ())"
      by (simp add: save_eval f)
    have 2: "map size_entry (written_index one_file (audio_entries b) 0) = [8]"
      by (simp add: f written_size_def final_size_def)
    have 3: "serialize_audio_data one_file (audio_entries b) = Inr [0xD0, 0xD1, 0xD2]"
      by (simp add: f)
    from Inr 1 2 3 show ?thesis by simp
  qed
qed

section \<open>A replacement that cannot be read\<close>






section \<open>The two chunk scans\<close>

lemma parse_sections_continue:
  assumes "read buf pos 4 = BKHD \<or> read buf pos 4 = DIDX"
    and "unpack_I e (read buf (pos + 4) 4) = Inr sz"
  shows "parse_sections e buf pos secs =
     parse_sections e buf (pos + 8 + length (read buf (pos + 8) sz))
       (secs(decode_ascii_ignore (read buf pos 4) \<mapsto>
          \<lparr>magic = decode_ascii_ignore (read buf pos 4), sdata = read buf (pos + 8) sz\<rparr>))"
proof -
  from assms(1) have l: "length (read buf pos 4) = 4"
    and m: "decode_ascii_ignore (read buf pos 4) = ''BKHD''
        \<or> decode_ascii_ignore (read buf pos 4) = ''DIDX''"
    by (auto simp: tag_codes) (simp_all add: BKHD_def DIDX_def)
  from m have "decode_ascii_ignore (read buf pos 4) \<in> set [''BKHD'', ''DIDX'', ''DATA'']"
    "decode_ascii_ignore (read buf pos 4) \<noteq> ''DATA''"
    by auto
  with l assms(2) show ?thesis
    by (subst parse_sections.simps) (simp del: set_simps)
qed

lemma parse_sections_after_data:
  assumes "read buf pos 4 = DATA" and "unpack_I e (read buf (pos + 4) 4) = Inr sz"
  shows "parse_sections e buf pos secs =
     Inr (secs, Some (pos + 8, sz), drop (pos + 8 + sz) buf)"
proof -
  from assms(1) have "length (read buf pos 4) = 4"
    "decode_ascii_ignore (read buf pos 4) = ''DATA''"
    by (simp_all add: tag_codes) (simp add: DATA_def)
  with assms(2) show ?thesis
    by (subst parse_sections.simps) simp
qed

lemma parse_chunks_skip:
  assumes "pos + 8 \<le> length d" and "take 4 (drop pos d) \<noteq> HIRC"
    and "take 4 (drop pos d) \<noteq> DIDX"
  shows "parse_chunks st d pos =
     parse_chunks st d (pos + 8 + le_nat (take 4 (drop (pos + 4) d)))"
  using assms
  by (subst parse_chunks.simps) (simp add: read_chunk_header_def unpack_from_I_def)

lemma parse_chunks_hirc:
  assumes "pos + 8 \<le> length d" and "take 4 (drop pos d) = HIRC"
  shows "parse_chunks st d pos =
     (case parse_hirc st d (pos + 8) (le_nat (take 4 (drop (pos + 4) d))) of
        Inl err \<Rightarrow> Inl err
      | Inr (st', pos2) \<Rightarrow> parse_chunks st' d pos2)"
  using assms
  by (subst parse_chunks.simps) (simp add: read_chunk_header_def unpack_from_I_def)

text \<open>
  Claim C8, as the code has it. The section loop of the patcher recognises three tags.
  After a BKHD or DIDX chunk it stores the payload and goes on behind it; after the
  header of a DATA chunk it stops, and the trailing bytes are those behind the declared
  size of that chunk; at any other tag with four bytes, HIRC among them, it stops and
  the trailing bytes are all the bytes from that tag on. The chunk loop of the
  hierarchy parser steps over a chunk that is neither HIRC nor DIDX by its declared
  size, and hands a HIRC chunk to \<open>_parse_hirc\<close> wherever it stands.
\<close>

theorem chunk_scans:
  "(4 \<le> length (drop pos buf) \<and>
      decode_ascii_ignore (read buf pos 4) \<notin> {''BKHD'', ''DIDX'', ''DATA''} \<longrightarrow>
      parse_sections e buf pos secs = Inr (secs, None, drop pos buf))
   \<and> (read buf pos 4 = HIRC \<longrightarrow>
      parse_sections e buf pos secs = Inr (secs, None, drop pos buf))
   \<and> (read buf pos 4 = DATA \<and> unpack_I e (read buf (pos + 4) 4) = Inr sz \<longrightarrow>
      parse_sections e buf pos secs =
        Inr (secs, Some (pos + 8, sz), drop (pos + 8 + sz) buf))
   \<and> ((read buf pos 4 = BKHD \<or> read buf pos 4 = DIDX) \<and>
      unpack_I e (read buf (pos + 4) 4) = Inr sz \<longrightarrow>
      parse_sections e buf pos secs =
        parse_sections e buf (pos + 8 + length (read buf (pos + 8) sz))
          (secs(decode_ascii_ignore (read buf pos 4) \<mapsto>
             \<lparr>magic = decode_ascii_ignore (read buf pos 4),
              sdata = read buf (pos + 8) sz\<rparr>)))
   \<and> (pos + 8 \<le> length d \<and> take 4 (drop pos d) \<noteq> HIRC \<and> take 4 (drop pos d) \<noteq> DIDX \<longrightarrow>
      parse_chunks st d pos =
        parse_chunks st d (pos + 8 + le_nat (take 4 (drop (pos + 4) d))))
   \<and> (pos + 8 \<le> length d \<and> take 4 (drop pos d) = HIRC \<longrightarrow>
      parse_chunks st d pos =
        (case parse_hirc st d (pos + 8) (le_nat (take 4 (drop (pos + 4) d))) of
           Inl err \<Rightarrow> Inl err
         | Inr (st', pos2) \<Rightarrow> parse_chunks st' d pos2))"
proof (intro conjI impI)
  assume "4 \<le> length (drop pos buf) \<and>
      decode_ascii_ignore (read buf pos 4) \<notin> {''BKHD'', ''DIDX'', ''DATA''}"
  then show "parse_sections e buf pos secs = Inr (secs, None, drop pos buf)"
    by (intro parse_sections_stop) (simp_all add: read_def)
next
  assume h: "read buf pos 4 = HIRC"
  then have t: "take 4 (drop pos buf) = HIRC" by (simp add: read_def)
  have "length (take 4 (drop pos buf)) = 4" unfolding t by (simp add: HIRC_def)
  then have l: "4 \<le> length (drop pos buf)" by simp
  have "decode_ascii_ignore (take 4 (drop pos buf)) \<notin> {''BKHD'', ''DIDX'', ''DATA''}"
    unfolding t by (simp add: tag_codes)
  with l show "parse_sections e buf pos secs = Inr (secs, None, drop pos buf)"
    by (rule parse_sections_stop)
next
  assume "read buf pos 4 = DATA \<and> unpack_I e (read buf (pos + 4) 4) = Inr sz"
  then show "parse_sections e buf pos secs =
        Inr (secs, Some (pos + 8, sz), drop (pos + 8 + sz) buf)"
    by (intro parse_sections_after_data) simp_all
next
  assume "(read buf pos 4 = BKHD \<or> read buf pos 4 = DIDX) \<and>
      unpack_I e (read buf (pos + 4) 4) = Inr sz"
  then show "parse_sections e buf pos secs =
        parse_sections e buf (pos + 8 + length (read buf (pos + 8) sz))
          (secs(decode_ascii_ignore (read buf pos 4) \<mapsto>
             \<lparr>magic = decode_ascii_ignore (read buf pos 4),
              sdata = read buf (pos + 8) sz\<rparr>))"
    by (intro parse_sections_continue) simp_all
next
  assume "pos + 8 \<le> length d \<and> take 4 (drop pos d) \<noteq> HIRC \<and> take 4 (drop pos d) \<noteq> DIDX"
  then show "parse_chunks st d pos =
        parse_chunks st d (pos + 8 + le_nat (take 4 (drop (pos + 4) d)))"
    by (intro parse_chunks_skip) simp_all
next
  assume "pos + 8 \<le> length d \<and> take 4 (drop pos d) = HIRC"
  then show "parse_chunks st d pos =
        (case parse_hirc st d (pos + 8) (le_nat (take 4 (drop (pos + 4) d))) of
           Inl err \<Rightarrow> Inl err
         | Inr (st', pos2) \<Rightarrow> parse_chunks st' d pos2)"
    by (intro parse_chunks_hirc) simp_all
qed

theorem chunk_scans_witness:
  "parse_sections Little mixed_file 12 Map.empty = Inr (Map.empty, None, drop 12 mixed_file)
   \<and> parse_chunks (new_bank_parser\<lparr>version := 120\<rparr>) mixed_file 12
       = parse_chunks (new_bank_parser\<lparr>version := 120\<rparr>) mixed_file 22
   \<and> (case parse mixed_file of
         Inl err \<Rightarrow> False
       | Inr st \<Rightarrow> sounds st 9 = Some \<lparr>sound_id = 9, source_id = None\<rparr> \<and> audio_files st = {5})
   \<and> (case load_soundbank Little mixed_file of Inl err \<Rightarrow> err = ValueError | Inr b \<Rightarrow> False)"
proof -
  have x: "decode_ascii_ignore [0x58, 0x58, 0x58, 0x58] = ''XXXX''"
    by code_simp
  have a: "4 \<le> length (drop 12 mixed_file) \<and>
      decode_ascii_ignore (read mixed_file 12 4) \<notin> {''BKHD'', ''DIDX'', ''DATA''}"
    by (simp add: mixed_file_def read_def x)
  have b: "12 + 8 \<le> length mixed_file \<and> take 4 (drop 12 mixed_file) \<noteq> HIRC \<and>
      take 4 (drop 12 mixed_file) \<noteq> DIDX"
    by (simp add: mixed_file_def HIRC_def DIDX_def)
  have n: "12 + 8 + le_nat (take 4 (drop (12 + 4) mixed_file)) = 22"
    by (simp add: mixed_file_def)
  note s = chunk_scans [where pos = 12 and buf = mixed_file and e = Little
      and secs = Map.empty and d = mixed_file and st = "new_bank_parser\<lparr>version := 120\<rparr>"]
  from s a have 1: "parse_sections Little mixed_file 12 Map.empty
      = Inr (Map.empty, None, drop 12 mixed_file)"
    by blast
  from s b have "parse_chunks (new_bank_parser\<lparr>version := 120\<rparr>) mixed_file 12
      = parse_chunks (new_bank_parser\<lparr>version := 120\<rparr>) mixed_file
          (12 + 8 + le_nat (take 4 (drop (12 + 4) mixed_file)))"
    by blast
  then have 2: "parse_chunks (new_bank_parser\<lparr>version := 120\<rparr>) mixed_file 12
      = parse_chunks (new_bank_parser\<lparr>version := 120\<rparr>) mixed_file 22"
    by (simp only: n)
  have 3: "(case parse mixed_file of
         Inl err \<Rightarrow> False
       | Inr st \<Rightarrow> sounds st 9 = Some \<lparr>sound_id = 9, source_id = None\<rparr> \<and> audio_files st = {5})"
    by code_simp
  have 4: "(case load_soundbank Little mixed_file of
      Inl err \<Rightarrow> err = ValueError | Inr b \<Rightarrow> False)"
    by code_simp
  from 1 2 3 4 show ?thesis by blast
qed

text \<open>
  The claim as stated counts HIRC among the tags the patching scan goes through. In this
  bank a HIRC chunk stands before the index: the scan stops at it, everything from the
  HIRC tag on becomes trailing bytes, no index is found, and loading raises.
\<close>

theorem patch_scan_halts_at_hirc_counterexample:
  "take 4 (drop 12 hirc_first_file) = HIRC
   \<and> (case parse_sections Little hirc_first_file 0 Map.empty of
         Inl err \<Rightarrow> False
       | Inr (secs, dr, tr) \<Rightarrow>
           secs ''DIDX'' = None \<and> dr = None \<and> tr = drop 12 hirc_first_file)
   \<and> (case load_soundbank Little hirc_first_file of
         Inl err \<Rightarrow> err = ValueError | Inr b \<Rightarrow> False)"
proof -
  have 1: "take 4 (drop 12 hirc_first_file) = HIRC"
    by (simp add: hirc_first_file_def HIRC_def)
  have 2: "(case parse_sections Little hirc_first_file 0 Map.empty of
         Inl err \<Rightarrow> False
       | Inr (secs, dr, tr) \<Rightarrow>
           secs ''DIDX'' = None \<and> dr = None \<and> tr = drop 12 hirc_first_file)"
    by code_simp
  have 3: "(case load_soundbank Little hirc_first_file of
         Inl err \<Rightarrow> err = ValueError | Inr b \<Rightarrow> False)"
    by code_simp
  from 1 2 3 show ?thesis by blast
qed

end
